(* ===== verification/Prelude.thy ===== *)
theory Prelude
  imports Main "HOL-Library.Sublist"
begin

text \<open>
  Shared vocabulary of the development: the Python values and exceptions the program
  handles, Python's string operations that \<open>src/Career_Path_AI.py\<close> uses
  (\<open>str.join\<close>, \<open>str.upper\<close>, truthiness), and Python's insertion-ordered
  \<open>dict\<close> as an association list. Strings are \<open>char list\<close>s of bytes (UTF-8);
  newline is the byte 0x0A. The generic list lemmas proved here carry the component
  proofs of the other theories.
\<close>

named_theorems py_simps "evaluation rules of the Python helpers"

section \<open>Python values and exceptions\<close>

text \<open>
  The values the program stores in \<open>st.session_state\<close>: \<open>None\<close>, booleans and
  strings. The exceptions: \<open>AttributeError\<close> (a method called on \<open>None\<close>),
  \<open>IndexError\<close> (indexing an empty list), and an exception raised inside a library
  (pdfplumber, the generative-AI client) with its message.
\<close>

datatype pyval = PyNone | PyBool bool | PyStr string

datatype py_error = AttributeError string | IndexError string | ExternalError string

text \<open>\<open>str(e)\<close> of an exception: its message.\<close>

fun py_exc_str :: "py_error \<Rightarrow> string" where
  "py_exc_str (AttributeError m) = m"
| "py_exc_str (IndexError m) = m"
| "py_exc_str (ExternalError m) = m"

section \<open>The page the program renders\<close>

text \<open>
  The Streamlit calls that show something the user reads: \<open>st.success\<close>,
  \<open>st.error\<close>, \<open>st.warning\<close>, \<open>st.markdown\<close>, and an uncaught exception, which
  Streamlit shows in place of the rest of the page. Static layout (title, headings,
  spacers) is not part of the model.
\<close>

datatype ui_out = UiSuccess string | UiError string | UiWarning string | UiMarkdown string
  | UiException py_error

fun py_truthy :: "pyval \<Rightarrow> bool" where
  "py_truthy PyNone = False"
| "py_truthy (PyBool b) = b"
| "py_truthy (PyStr s) = (s \<noteq> [])"

type_synonym 'v pydict = "(string \<times> 'v) list"

section \<open>Strings\<close>

definition nl_char :: char where
  "nl_char = CHR 0x0A"

definition nl :: string where
  "nl = [nl_char]"

text \<open>Python's \<open>sep.join(xs)\<close>.\<close>

fun py_join :: "string \<Rightarrow> string list \<Rightarrow> string" where
  "py_join sep [] = []"
| "py_join sep [x] = x"
| "py_join sep (x # y # ys) = x @ sep @ py_join sep (y # ys)"

text \<open>
  Python's \<open>str.upper\<close> on ASCII letters; every other byte is
  kept. (Python also maps non-ASCII letters; the strings the program upper-cases are the
  two ASCII radio options.)
\<close>

definition py_upper_char :: "char \<Rightarrow> char" where
  "py_upper_char c =
     (let n = of_char c :: nat in if 97 \<le> n \<and> n \<le> 122 then char_of (n - 32) else c)"

definition py_upper :: "string \<Rightarrow> string" where
  "py_upper s = map py_upper_char s"

section \<open>Dictionaries\<close>

text \<open>
  \<open>d[k] = v\<close> on an insertion-ordered Python \<open>dict\<close>: an existing key keeps its
  position and gets the new value, a new key is appended.
\<close>

fun dict_set :: "('k \<times> 'v) list \<Rightarrow> 'k \<Rightarrow> 'v \<Rightarrow> ('k \<times> 'v) list" where
  "dict_set [] k v = [(k, v)]"
| "dict_set ((k', v') # d) k v = (if k' = k then (k, v) # d else (k', v') # dict_set d k v)"

section \<open>Lemmas on sublists\<close>

lemma sublist_middle [intro]: "ys = a @ x @ b \<Longrightarrow> sublist x ys"
  by (auto simp: sublist_def)

section \<open>Lemmas on join\<close>

lemma py_join_Cons [py_simps]:
  "py_join sep (x # xs) = (if xs = [] then x else x @ sep @ py_join sep xs)"
  by (cases xs) simp_all

lemma py_join_append:
  "py_join sep (xs @ ys) =
     py_join sep xs @ (if xs = [] \<or> ys = [] then [] else sep) @ py_join sep ys"
  by (induction sep xs rule: py_join.induct) (auto simp: py_join_Cons)

lemma py_join_sep_suffix:
  "x \<in> set xs \<Longrightarrow> \<exists>a b. py_join sep xs @ sep = a @ x @ sep @ b"
proof (induction xs)
  case Nil
  then show ?case by simp
next
  case (Cons y ys)
  show ?case
  proof (cases "x = y")
    case True
    then have "py_join sep (y # ys) @ sep =
        [] @ x @ sep @ (if ys = [] then [] else py_join sep ys @ sep)"
      by (simp add: py_join_Cons)
    then show ?thesis by blast
  next
    case False
    with Cons.prems obtain a b where ab: "py_join sep ys @ sep = a @ x @ sep @ b"
      using Cons.IH by auto
    from False Cons.prems have "ys \<noteq> []" by auto
    with ab have "py_join sep (y # ys) @ sep = (y @ sep @ a) @ x @ sep @ b"
      by (simp add: py_join_Cons)
    then show ?thesis by blast
  qed
qed

lemma py_join_order:
  "\<exists>p q r. py_join sep (xs @ [a] @ ys @ [b] @ zs) = p @ a @ q @ b @ r"
proof -
  have "py_join sep (xs @ [a] @ ys @ [b] @ zs) =
      (py_join sep xs @ (if xs = [] then [] else sep)) @ a @
      (sep @ py_join sep ys @ (if ys = [] then [] else sep)) @ b @
      (if zs = [] then [] else sep @ py_join sep zs)"
    by (simp add: py_join_append py_join_Cons)
  then show ?thesis by blast
qed

lemma count_list_py_join:
  "count_list (py_join sep xs) c =
     sum_list (map (\<lambda>x. count_list x c) xs) + (length xs - 1) * count_list sep c"
  by (induction sep xs rule: py_join.induct) auto

section \<open>Lemmas on dictionaries\<close>

lemma dict_set_new [py_simps]: "k \<notin> fst ` set d \<Longrightarrow> dict_set d k v = d @ [(k, v)]"
  by (induction d) auto

end
