(* ===== verification/Session.thy ===== *)
theory Session
  imports Prelude
begin

text \<open>
  The session state store, \<open>st.session_state\<close>, and its initialisation at the top of
  every script run (\<open>src/Career_Path_AI.py\<close>, lines 10--13). The store is a map from
  key names to Python values. Reading an attribute that is not in the store raises
  \<open>AttributeError\<close>, as Streamlit's \<open>st.session_state.key\<close> does. The theory shows that
  initialisation fills exactly the missing keys, keeps every value already there, is
  idempotent, and leaves a well-typed store, so that the later reads cannot fail.
\<close>

section \<open>Definitions\<close>

type_synonym store = "string \<rightharpoonup> pyval"

text \<open>Line 11: the keys the program keeps across runs.\<close>

definition session_keys :: "string list" where
  "session_keys = [''user_type'', ''resume_text'', ''submit_clicked'', ''career_response'']"

text \<open>
  Lines 12--13, one iteration: \<open>if key not in st.session_state: st.session_state[key] =
  None if key != "submit_clicked" else False\<close>.
\<close>

definition init_key :: "store \<Rightarrow> string \<Rightarrow> store" where
  "init_key s key =
     (if key \<notin> dom s
      then s(key \<mapsto> (if key \<noteq> ''submit_clicked'' then PyNone else PyBool False))
      else s)"

text \<open>Lines 11--13: the loop over the keys, in their order.\<close>

definition session_init :: "store \<Rightarrow> store" where
  "session_init s = fold (\<lambda>key s. init_key s key) session_keys s"

text \<open>\<open>st.session_state.key\<close>: a missing key raises \<open>AttributeError\<close>.\<close>

definition ss_get :: "store \<Rightarrow> string \<Rightarrow> py_error + pyval" where
  "ss_get s key =
     (case s key of
        None \<Rightarrow> Inl (AttributeError (''st.session_state has no attribute '' @ key))
      | Some v \<Rightarrow> Inr v)"

text \<open>The types the program keeps in each slot: a string or \<open>None\<close>, or a boolean.\<close>

fun str_slot :: "pyval option \<Rightarrow> bool" where
  "str_slot (Some PyNone) = True"
| "str_slot (Some (PyStr _)) = True"
| "str_slot _ = False"

fun bool_slot :: "pyval option \<Rightarrow> bool" where
  "bool_slot (Some (PyBool _)) = True"
| "bool_slot _ = False"

definition session_wf :: "store \<Rightarrow> bool" where
  "session_wf s \<longleftrightarrow>
     str_slot (s ''user_type'') \<and> str_slot (s ''resume_text'') \<and>
     bool_slot (s ''submit_clicked'') \<and> str_slot (s ''career_response'')"

text \<open>Before initialisation a slot may be missing; a present one has its type.\<close>

definition slots_ok :: "store \<Rightarrow> bool" where
  "slots_ok s \<longleftrightarrow>
     (s ''user_type'' = None \<or> str_slot (s ''user_type'')) \<and>
     (s ''resume_text'' = None \<or> str_slot (s ''resume_text'')) \<and>
     (s ''submit_clicked'' = None \<or> bool_slot (s ''submit_clicked'')) \<and>
     (s ''career_response'' = None \<or> str_slot (s ''career_response''))"

section \<open>Initialisation\<close>

lemma init_key_apply:
  "init_key s key k =
     (if k = key \<and> s k = None
      then Some (if k \<noteq> ''submit_clicked'' then PyNone else PyBool False) else s k)"
  by (auto simp: init_key_def)

lemma fold_init_key_apply:
  "fold (\<lambda>key s. init_key s key) ks s k =
     (if k \<in> set ks \<and> s k = None
      then Some (if k \<noteq> ''submit_clicked'' then PyNone else PyBool False) else s k)"
  by (induction ks arbitrary: s) (auto simp: init_key_apply)

lemma session_init_apply:
  "session_init s k =
     (if k \<in> set session_keys \<and> s k = None
      then Some (if k \<noteq> ''submit_clicked'' then PyNone else PyBool False) else s k)"
  by (simp add: session_init_def fold_init_key_apply)

lemma session_init_keeps [simp]: "s k = Some v \<Longrightarrow> session_init s k = Some v"
  by (simp add: session_init_apply)

section \<open>Properties\<close>

lemma session_init_wf: "slots_ok s \<Longrightarrow> session_wf (session_init s)"
  by (auto simp: slots_ok_def session_wf_def session_init_apply session_keys_def)

lemma session_wf_reads:
  "session_wf s \<Longrightarrow> key \<in> set session_keys \<Longrightarrow> \<exists>v. ss_get s key = Inr v"
  by (auto simp: session_wf_def session_keys_def ss_get_def elim: str_slot.elims bool_slot.elims)

text \<open>C17: Initialisation turns any store whose present slots are well typed into a
  well-typed store, and keeps every value already present.\<close>

theorem session_init_establishes_wf:
  assumes "slots_ok s"
  shows "session_wf (session_init s) \<and> (\<forall>k v. s k = Some v \<longrightarrow> session_init s k = Some v)"
  using session_init_wf [OF assms] by simp

theorem session_init_establishes_wf_witness:
  "slots_ok [''resume_text'' \<mapsto> PyStr ''CV''] \<and>
   session_wf (session_init [''resume_text'' \<mapsto> PyStr ''CV'']) \<and>
   session_init [''resume_text'' \<mapsto> PyStr ''CV''] ''resume_text'' = Some (PyStr ''CV'')"
proof -
  have ok: "slots_ok [''resume_text'' \<mapsto> PyStr ''CV'']" by (simp add: slots_ok_def)
  show ?thesis using session_init_establishes_wf [OF ok] ok by simp
qed

text \<open>C18: A rerun's initialisation leaves the session unchanged exactly when all four
  keys are present, so it never touches a session the program has filled; and
  initialising twice is initialising once.\<close>

theorem session_init_fixed_points:
  "session_init (session_init s) = session_init s \<and>
   (session_init s = s \<longleftrightarrow>
      {''user_type'', ''resume_text'', ''submit_clicked'', ''career_response''} \<subseteq> dom s)"
proof
  show "session_init (session_init s) = session_init s"
    by (rule ext) (simp add: session_init_apply)
  show "session_init s = s \<longleftrightarrow>
      {''user_type'', ''resume_text'', ''submit_clicked'', ''career_response''} \<subseteq> dom s"
  proof
    assume fx: "session_init s = s"
    have "k \<in> dom s" if "k \<in> set session_keys" for k
    proof (rule ccontr)
      assume "k \<notin> dom s"
      with that have "session_init s k \<noteq> None" by (simp add: session_init_apply domIff)
      with fx \<open>k \<notin> dom s\<close> show False by (simp add: domIff)
    qed
    then show "{''user_type'', ''resume_text'', ''submit_clicked'', ''career_response''} \<subseteq> dom s"
      by (simp add: session_keys_def)
  next
    assume "{''user_type'', ''resume_text'', ''submit_clicked'', ''career_response''} \<subseteq> dom s"
    then show "session_init s = s"
      by (auto simp: fun_eq_iff session_init_apply session_keys_def)
  qed
qed

theorem session_init_fixed_points_witness:
  "session_init [''user_type'' \<mapsto> PyStr ''High School Student'', ''resume_text'' \<mapsto> PyStr ''CV'',
                 ''submit_clicked'' \<mapsto> PyBool True, ''career_response'' \<mapsto> PyStr ''Report''] =
     [''user_type'' \<mapsto> PyStr ''High School Student'', ''resume_text'' \<mapsto> PyStr ''CV'',
      ''submit_clicked'' \<mapsto> PyBool True, ''career_response'' \<mapsto> PyStr ''Report''] \<and>
   session_init [''resume_text'' \<mapsto> PyStr ''CV''] \<noteq> [''resume_text'' \<mapsto> PyStr ''CV'']"
  using session_init_fixed_points [of "[''user_type'' \<mapsto> PyStr ''High School Student'', ''resume_text'' \<mapsto> PyStr ''CV'',
                 ''submit_clicked'' \<mapsto> PyBool True, ''career_response'' \<mapsto> PyStr ''Report'']"]
    session_init_fixed_points [of "[''resume_text'' \<mapsto> PyStr ''CV'']"]
  by simp

end
