(* ===== verification/Resume.thy ===== *)
theory Resume
  imports Session
begin

text \<open>
  The resume upload (\<open>src/Career_Path_AI.py\<close>, lines 21--37). When a PDF is uploaded,
  pdfplumber opens it and the loop over its pages appends the text of every page that
  yields non-empty text, each followed by a newline; the result is stored in
  \<open>st.session_state.resume_text\<close> and a success message is shown. Any exception
  (opening the file or extracting a page) is caught: an error message is shown and the
  stored resume text is reset to the empty string, whatever the pages before the failing
  one yielded. pdfplumber itself is not modelled: a document is given by what
  \<open>pdfplumber.open\<close> and each \<open>page.extract_text()\<close> return or raise.
\<close>

section \<open>Definitions\<close>

text \<open>A page: \<open>extract_text()\<close> returns a string or \<open>None\<close>, or raises.\<close>

datatype page = Page "string option" | PageRaises string

text \<open>A document: \<open>pdfplumber.open\<close> raises, or gives the list of pages.\<close>

datatype pdf = PdfUnreadable string | PdfPages "page list"

text \<open>Lines 28--32: \<open>for page in pdf.pages: page_text = page.extract_text(); if
  page_text: text += page_text + "\n"\<close>, with the accumulator \<open>text\<close>.\<close>

fun extract_pages :: "page list \<Rightarrow> string \<Rightarrow> py_error + string" where
  "extract_pages [] text = Inr text"
| "extract_pages (Page page_text # pages) text =
     (case page_text of
        Some t \<Rightarrow> extract_pages pages (if t \<noteq> [] then text @ t @ nl else text)
      | None \<Rightarrow> extract_pages pages text)"
| "extract_pages (PageRaises e # pages) text = Inl (ExternalError e)"

text \<open>Lines 27--32: open the document, then the loop from the empty string.\<close>

definition extract_pdf :: "pdf \<Rightarrow> py_error + string" where
  "extract_pdf doc =
     (case doc of
        PdfUnreadable e \<Rightarrow> Inl (ExternalError e)
      | PdfPages pages \<Rightarrow> extract_pages pages [])"

definition check_mark :: string where
  "check_mark = [CHR 0xE2, CHR 0x9C, CHR 0x85]"

text \<open>Lines 25--37: the whole upload branch, on the session store.\<close>

definition upload_resume :: "pdf option \<Rightarrow> store \<Rightarrow> store \<times> ui_out list" where
  "upload_resume uploaded_pdf s =
     (case uploaded_pdf of
        None \<Rightarrow> (s, [])
      | Some doc \<Rightarrow>
          (case extract_pdf doc of
             Inr text \<Rightarrow>
               (s(''resume_text'' \<mapsto> PyStr text), [UiSuccess (check_mark @ '' Resume text extracted.'')])
           | Inl e \<Rightarrow>
               (s(''resume_text'' \<mapsto> PyStr []), [UiError (''Error reading PDF: '' @ py_exc_str e)])))"

section \<open>Extraction\<close>

text \<open>What the loop computes when no page raises: the non-empty page texts, each followed
  by a newline, after the accumulator.\<close>

definition page_texts :: "page list \<Rightarrow> string list" where
  "page_texts pages = [t. Page (Some t) \<leftarrow> pages, t \<noteq> []]"

definition page_raises :: "page list \<Rightarrow> bool" where
  "page_raises pages \<longleftrightarrow> (\<exists>e. PageRaises e \<in> set pages)"

lemma extract_pages_ok:
  "\<not> page_raises pages \<Longrightarrow>
   extract_pages pages acc = Inr (acc @ concat (map (\<lambda>t. t @ nl) (page_texts pages)))"
  by (induction pages acc rule: extract_pages.induct)
     (auto simp: page_texts_def page_raises_def split: option.splits)

lemma extract_pages_raises:
  "page_raises pages \<Longrightarrow> \<exists>e. extract_pages pages acc = Inl (ExternalError e)"
  by (induction pages acc rule: extract_pages.induct)
     (auto simp: page_raises_def split: option.splits)

lemma extract_pages_Inl:
  "extract_pages pages acc = Inl e \<Longrightarrow> page_raises pages"
  by (induction pages acc rule: extract_pages.induct)
     (auto simp: page_raises_def split: option.splits)

section \<open>The upload branch\<close>

lemma extract_pdf_fails:
  "doc = PdfUnreadable m \<or> (doc = PdfPages pages \<and> page_raises pages) \<Longrightarrow>
   \<exists>e. extract_pdf doc = Inl (ExternalError e)"
  using extract_pages_raises [of pages "[]"] by (auto simp: extract_pdf_def)

lemma upload_resume_error_store:
  "extract_pdf doc = Inl e \<Longrightarrow> fst (upload_resume (Some doc) s) = s(''resume_text'' \<mapsto> PyStr [])"
  by (simp add: upload_resume_def)

lemma upload_resume_frame:
  "k \<noteq> ''resume_text'' \<Longrightarrow> fst (upload_resume u s) k = s k"
  by (auto simp: upload_resume_def split: option.splits sum.splits)

lemma upload_resume_wf:
  "session_wf s \<Longrightarrow> session_wf (fst (upload_resume u s))"
  by (auto simp: upload_resume_def session_wf_def split: option.splits sum.splits)

lemma upload_resume_pages_store:
  "\<not> page_raises pages \<Longrightarrow>
   fst (upload_resume (Some (PdfPages pages)) s) =
     s(''resume_text'' \<mapsto> PyStr (concat (map (\<lambda>t. t @ nl) (page_texts pages))))"
  using extract_pages_ok [of pages "[]"] by (simp add: upload_resume_def extract_pdf_def)

text \<open>C19: When no page raises, the stored resume text is the concatenation of the
  non-empty page texts, each followed by a newline, and the success message is shown.\<close>

theorem upload_resume_extracts_pages:
  assumes "\<not> page_raises pages"
  shows "upload_resume (Some (PdfPages pages)) s =
    (s(''resume_text'' \<mapsto> PyStr (concat (map (\<lambda>t. t @ nl) (page_texts pages)))),
     [UiSuccess (check_mark @ '' Resume text extracted.'')])"
  using extract_pages_ok [OF assms, of "[]"]
  by (simp add: upload_resume_def extract_pdf_def)

theorem upload_resume_extracts_pages_witness:
  "\<not> page_raises [Page (Some ''Jane Doe''), Page None, Page (Some ''''), Page (Some ''BSc'')] \<and>
   upload_resume (Some (PdfPages [Page (Some ''Jane Doe''), Page None, Page (Some ''''), Page (Some ''BSc'')])) Map.empty =
    ([''resume_text'' \<mapsto> PyStr (''Jane Doe'' @ nl @ ''BSc'' @ nl)],
     [UiSuccess (check_mark @ '' Resume text extracted.'')])"
proof -
  have ok: "\<not> page_raises [Page (Some ''Jane Doe''), Page None, Page (Some ''''), Page (Some ''BSc'')]"
    by (simp add: page_raises_def)
  show ?thesis using upload_resume_extracts_pages [OF ok, of Map.empty] ok
    by (simp add: page_texts_def)
qed

text \<open>C20: When opening the document or extracting any page raises, the stored resume
  text becomes the empty string (even if earlier pages yielded text) and the error is
  shown.\<close>

theorem upload_resume_failure_resets:
  assumes "doc = PdfUnreadable m \<or> (doc = PdfPages pages \<and> page_raises pages)"
  shows "\<exists>e. upload_resume (Some doc) s =
    (s(''resume_text'' \<mapsto> PyStr []), [UiError (''Error reading PDF: '' @ e)])"
  using extract_pdf_fails [OF assms] by (auto simp: upload_resume_def)

theorem upload_resume_failure_resets_witness:
  "(PdfPages [Page (Some ''Jane''), PageRaises ''bad xref''] = PdfUnreadable '''' \<or>
    (PdfPages [Page (Some ''Jane''), PageRaises ''bad xref''] = PdfPages [Page (Some ''Jane''), PageRaises ''bad xref''] \<and>
     page_raises [Page (Some ''Jane''), PageRaises ''bad xref''])) \<and>
   upload_resume (Some (PdfPages [Page (Some ''Jane''), PageRaises ''bad xref''])) [''resume_text'' \<mapsto> PyStr ''Old CV''] =
    ([''resume_text'' \<mapsto> PyStr []], [UiError (''Error reading PDF: '' @ ''bad xref'')])"
proof -
  have h: "PdfPages [Page (Some ''Jane''), PageRaises ''bad xref''] = PdfUnreadable '''' \<or>
    (PdfPages [Page (Some ''Jane''), PageRaises ''bad xref''] = PdfPages [Page (Some ''Jane''), PageRaises ''bad xref''] \<and>
     page_raises [Page (Some ''Jane''), PageRaises ''bad xref''])"
    by (simp add: page_raises_def)
  have "upload_resume (Some (PdfPages [Page (Some ''Jane''), PageRaises ''bad xref''])) [''resume_text'' \<mapsto> PyStr ''Old CV''] =
    ([''resume_text'' \<mapsto> PyStr []], [UiError (''Error reading PDF: '' @ ''bad xref'')])"
    using upload_resume_failure_resets [OF h, of "[''resume_text'' \<mapsto> PyStr ''Old CV'']"]
    by (simp add: upload_resume_def extract_pdf_def)
  with h show ?thesis by simp
qed

end
