(* ===== verification/Form.thy ===== *)
theory Form
  imports Prelude
begin

text \<open>
  The manual-input form (\<open>src/Career_Path_AI.py\<close>, lines 19 and 45--75). The radio
  button chooses the user type; for each of the two types the code creates a fixed
  sequence of widgets and stores each widget's value in the dictionary \<open>inputs\<close> under a
  label. The table \<open>form_fields\<close> keeps the code's labels, questions, widget kinds and
  order; \<open>collect_inputs\<close> performs the assignments \<open>inputs[label] = widget(...)\<close> in
  that order on an insertion-ordered dictionary.

  Streamlit is not part of the repository. Its contract for the widgets used here is
  modelled by \<open>widget_value\<close>: a text field returns what the user typed, or the empty
  string; a select box returns the chosen option, or its first option by default.
  Widgets inside \<open>st.expander\<close> run whether or not the expander is open.
\<close>

section \<open>Definitions\<close>

text \<open>Line 19: the options of \<open>st.radio("Who are you?", ...)\<close>.\<close>

definition user_type_options :: "string list" where
  "user_type_options = [''Current Job Seeker'', ''High School Student'']"

datatype widget = TextInput string | TextArea string | SelectBox string "string list"

text \<open>What the user has entered in each widget (\<open>None\<close>: left untouched).\<close>

type_synonym widget_env = "widget \<Rightarrow> string option"

definition widget_value :: "widget_env \<Rightarrow> widget \<Rightarrow> string" where
  "widget_value env w =
     (case w of
        TextInput _ \<Rightarrow> (case env w of None \<Rightarrow> [] | Some v \<Rightarrow> v)
      | TextArea _ \<Rightarrow> (case env w of None \<Rightarrow> [] | Some v \<Rightarrow> v)
      | SelectBox _ opts \<Rightarrow>
          (case env w of Some v \<Rightarrow> if v \<in> set opts then v else hd opts | None \<Rightarrow> hd opts))"

text \<open>Lines 47--62: the job seeker's questions, mandatory ones first, then the optional
  ones inside the expander.\<close>

definition job_seeker_fields :: "(string \<times> widget) list" where
  "job_seeker_fields =
     [(''Highest Education Level'', TextInput ''What is your highest level of education?''),
      (''Education Place'', TextInput ''Where did you study?''),
      (''Major'', TextInput ''What did you major in?''),
      (''Previous Jobs'', TextArea ''List your previous jobs/experiences''),
      (''Age'', TextInput ''What is your age?''),
      (''Test Scores'', TextInput ''Relevant test scores (LSAT, MCAT, etc.)''),
      (''Technical Skills'', TextInput ''List your technical skills''),
      (''Interests'', TextInput ''What are your personal interests?''),
      (''Values'', TextInput ''What are your core values?''),
      (''Legal Status'', TextInput ''What is your work authorization status?''),
      (''Willing to Relocate'', SelectBox ''Would you relocate for work?'' [''Yes'', ''No''])]"

text \<open>Lines 64--75: the student's questions.\<close>

definition student_fields :: "(string \<times> widget) list" where
  "student_fields =
     [(''Age'', TextInput ''What is your age?''),
      (''Planned Education Level'', TextInput ''What is the highest level of education you plan to achieve?''),
      (''Planned Study Location'', TextInput ''Where do you plan to study?''),
      (''Planned Major'', TextInput ''What do you want to major in?''),
      (''Extracurriculars'', TextInput ''List your extracurriculars''),
      (''Volunteering'', TextInput ''List your volunteering experiences''),
      (''Awards'', TextInput ''List any awards or recognitions'')]"

text \<open>Lines 47 and 64: the \<open>if\<close>/\<open>elif\<close> on the radio's value; any other value
  (\<open>None\<close>: nothing selected) creates no widget.\<close>

definition form_fields :: "pyval \<Rightarrow> (string \<times> widget) list" where
  "form_fields user_type =
     (if user_type = PyStr ''Current Job Seeker'' then job_seeker_fields
      else if user_type = PyStr ''High School Student'' then student_fields
      else [])"

text \<open>Each line \<open>inputs[label] = widget(...)\<close>, in order.\<close>

fun collect_inputs :: "widget_env \<Rightarrow> (string \<times> widget) list \<Rightarrow> string pydict \<Rightarrow> string pydict" where
  "collect_inputs env [] inputs = inputs"
| "collect_inputs env ((label, w) # fields) inputs =
     collect_inputs env fields (dict_set inputs label (widget_value env w))"

text \<open>Line 45 and the branch: \<open>inputs = {}\<close>, then the widgets of the chosen type.\<close>

definition manual_inputs :: "pyval \<Rightarrow> widget_env \<Rightarrow> string pydict" where
  "manual_inputs user_type env = collect_inputs env (form_fields user_type) []"

section \<open>The collected dictionary\<close>

lemma collect_inputs_distinct:
  "distinct (map fst inputs @ map fst fields) \<Longrightarrow>
   collect_inputs env fields inputs = inputs @ map (\<lambda>(k, w). (k, widget_value env w)) fields"
proof (induction env fields inputs rule: collect_inputs.induct)
  case (1 env inputs)
  then show ?case by simp
next
  case (2 env label w fields inputs)
  then have "label \<notin> fst ` set inputs" by auto
  then have "dict_set inputs label (widget_value env w) = inputs @ [(label, widget_value env w)]"
    by (rule dict_set_new)
  with "2.prems" "2.IH" show ?case by simp
qed

lemma form_fields_distinct: "distinct (map fst (form_fields user_type))"
  by (simp add: form_fields_def job_seeker_fields_def student_fields_def)

lemma manual_inputs_eq:
  "manual_inputs user_type env = map (\<lambda>(k, w). (k, widget_value env w)) (form_fields user_type)"
  using collect_inputs_distinct [of "[]" "form_fields user_type" env] form_fields_distinct
  by (simp add: manual_inputs_def)

text \<open>C23: The answers dictionary has exactly the labels of the chosen form, in the
  code's order, without repetition; for no selection it is empty.\<close>

theorem manual_inputs_keys:
  "map fst (manual_inputs user_type env) = map fst (form_fields user_type) \<and>
   distinct (map fst (manual_inputs user_type env)) \<and>
   (user_type \<notin> PyStr ` set user_type_options \<longrightarrow> manual_inputs user_type env = [])"
proof -
  have keys: "map fst (manual_inputs user_type env) = map fst (form_fields user_type)"
    by (simp add: manual_inputs_eq comp_def case_prod_unfold)
  moreover from keys form_fields_distinct have "distinct (map fst (manual_inputs user_type env))"
    by simp
  moreover have "user_type \<notin> PyStr ` set user_type_options \<longrightarrow> manual_inputs user_type env = []"
    by (simp add: manual_inputs_eq form_fields_def user_type_options_def)
  ultimately show ?thesis by blast
qed

theorem manual_inputs_keys_witness:
  "PyNone \<notin> PyStr ` set user_type_options \<and> manual_inputs PyNone (\<lambda>_. None) = [] \<and>
   map fst (manual_inputs (PyStr ''High School Student'') (\<lambda>_. None)) =
     [''Age'', ''Planned Education Level'', ''Planned Study Location'', ''Planned Major'',
      ''Extracurriculars'', ''Volunteering'', ''Awards'']"
  using manual_inputs_keys [of PyNone "\<lambda>_. None"] manual_inputs_keys [of "PyStr ''High School Student''" "\<lambda>_. None"]
  by (simp add: form_fields_def student_fields_def user_type_options_def)

end
