(* ===== verification/Prompt.thy ===== *)
theory Prompt
  imports Prelude
begin

text \<open>
  The prompt builder, \<open>build_prompt(inputs, resume_text, user_type)\<close> of
  \<open>src/Career_Path_AI.py\<close> (lines 78--98): an f-string over a triple-quoted literal,
  with the user type upper-cased, the resume text or a placeholder, and the non-empty
  manual answers joined by newlines. Every byte of the literal is written out (the
  four-space indentation of the source, the UTF-8 en dash of \<open>3--5\<close>), so the
  theorems below are about the exact string the program sends.
\<close>

section \<open>Definitions\<close>

text \<open>Python's \<open>str(x)\<close> of the values the session can hold.\<close>

fun py_str :: "pyval \<Rightarrow> string" where
  "py_str PyNone = ''None''"
| "py_str (PyBool True) = ''True''"
| "py_str (PyBool False) = ''False''"
| "py_str (PyStr s) = s"

definition en_dash :: string where
  "en_dash = [CHR 0xE2, CHR 0x80, CHR 0x93]"

definition q :: string where
  "q = [CHR 0x27]"

definition no_resume :: string where
  "no_resume = ''[No resume provided]''"

text \<open>Line 87: \<open>resume_text if resume_text else '[No resume provided]'\<close>.\<close>

definition resume_shown :: "pyval \<Rightarrow> string" where
  "resume_shown resume_text = (if py_truthy resume_text then py_str resume_text else no_resume)"

text \<open>Line 90: \<open>f"- {k}: {v}"\<close>, for \<open>k, v in inputs.items() if v\<close>.\<close>

definition manual_line :: "string \<Rightarrow> string \<Rightarrow> string" where
  "manual_line k v = ''- '' @ k @ '': '' @ v"

definition manual_lines :: "string pydict \<Rightarrow> string list" where
  "manual_lines inputs = [manual_line k v. (k, v) \<leftarrow> inputs, v \<noteq> []]"

text \<open>
  The whole function. \<open>user_type.upper()\<close> raises \<open>AttributeError\<close> unless
  \<open>user_type\<close> is a string; nothing else in the body can fail.
\<close>

definition build_prompt :: "string pydict \<Rightarrow> pyval \<Rightarrow> pyval \<Rightarrow> py_error + string" where
  "build_prompt inputs resume_text user_type =
     (case user_type of
        PyStr ut \<Rightarrow> Inr (
          nl @ ''    You are a Career and Salary Forecasting AI.'' @ nl @ nl @
          ''    Analyze the following background and generate personalized career advice. If resume content is available, prioritize it.'' @ nl @ nl @
          ''    --- USER TYPE: '' @ py_upper ut @ '' ---'' @ nl @ nl @
          ''    Resume Content:'' @ nl @
          ''    '' @ resume_shown resume_text @ nl @ nl @
          ''    Manual Inputs:'' @ nl @
          ''    '' @ py_join nl (manual_lines inputs) @ nl @ nl @
          ''    Generate the following:'' @ nl @
          ''    1. 3'' @ en_dash @ ''5 personalized career paths relevant to the user's profile.'' @ nl @
          ''    2. Estimated salary ranges for each career (entry, mid, senior level).'' @ nl @
          ''    '' @ nl @
          ''    Use bullet points and clear formatting.'' @ nl @
          ''    '')
      | PyNone \<Rightarrow> Inl (AttributeError (q @ ''NoneType'' @ q @ '' object has no attribute '' @ q @ ''upper'' @ q))
      | PyBool _ \<Rightarrow> Inl (AttributeError (q @ ''bool'' @ q @ '' object has no attribute '' @ q @ ''upper'' @ q)))"

text \<open>
  The prompt around the manual-inputs block: what comes before it depends on the user
  type and the resume only, what comes after is fixed.
\<close>

definition prompt_before :: "string \<Rightarrow> pyval \<Rightarrow> string" where
  "prompt_before ut resume_text =
     nl @ ''    You are a Career and Salary Forecasting AI.'' @ nl @ nl @
     ''    Analyze the following background and generate personalized career advice. If resume content is available, prioritize it.'' @ nl @ nl @
     ''    --- USER TYPE: '' @ py_upper ut @ '' ---'' @ nl @ nl @
     ''    Resume Content:'' @ nl @
     ''    '' @ resume_shown resume_text @ nl @ nl @
     ''    Manual Inputs:'' @ nl @ ''    ''"

definition prompt_after :: string where
  "prompt_after =
     nl @ nl @ ''    Generate the following:'' @ nl @
     ''    1. 3'' @ en_dash @ ''5 personalized career paths relevant to the user's profile.'' @ nl @
     ''    2. Estimated salary ranges for each career (entry, mid, senior level).'' @ nl @
     ''    '' @ nl @
     ''    Use bullet points and clear formatting.'' @ nl @ ''    ''"

section \<open>Structure of the prompt\<close>

lemma manual_lines_filter:
  "manual_lines inputs = map (\<lambda>(k, v). manual_line k v) (filter (\<lambda>(k, v). v \<noteq> []) inputs)"
  by (induction inputs) (auto simp: manual_lines_def)

lemma manual_lines_append [py_simps]:
  "manual_lines (xs @ ys) = manual_lines xs @ manual_lines ys"
  by (simp add: manual_lines_filter)

lemma build_prompt_PyStr:
  "build_prompt inputs resume_text (PyStr ut) =
     Inr (prompt_before ut resume_text @ py_join nl (manual_lines inputs) @ prompt_after)"
  by (simp add: build_prompt_def prompt_before_def prompt_after_def)

lemma build_prompt_Inr:
  "build_prompt inputs resume_text user_type = Inr p \<longleftrightarrow>
     (\<exists>ut. user_type = PyStr ut \<and>
        p = prompt_before ut resume_text @ py_join nl (manual_lines inputs) @ prompt_after)"
  by (cases user_type) (auto simp: build_prompt_def prompt_before_def prompt_after_def)

lemma manual_line_mem:
  "(k, v) \<in> set inputs \<Longrightarrow> v \<noteq> [] \<Longrightarrow> manual_line k v \<in> set (manual_lines inputs)"
  by (force simp: manual_lines_filter)

lemma prompt_after_nl: "prompt_after = nl @ tl prompt_after"
  by (simp add: prompt_after_def nl_def)

lemma bullet_line_in_prompt:
  assumes "(k, v) \<in> set inputs" and "v \<noteq> []" and "build_prompt inputs resume_text user_type = Inr p"
  shows "sublist (manual_line k v @ nl) p"
proof -
  from assms(3) obtain ut where p: "p = prompt_before ut resume_text @ py_join nl (manual_lines inputs) @ prompt_after"
    by (auto simp: build_prompt_Inr)
  from assms(1,2) have "manual_line k v \<in> set (manual_lines inputs)" by (rule manual_line_mem)
  then obtain a b where ab: "py_join nl (manual_lines inputs) @ nl = a @ manual_line k v @ nl @ b"
    using py_join_sep_suffix by blast
  have "p = prompt_before ut resume_text @ (py_join nl (manual_lines inputs) @ nl) @ tl prompt_after"
    using p prompt_after_nl by (metis append.assoc)
  with ab have "p = (prompt_before ut resume_text @ a) @ (manual_line k v @ nl) @ (b @ tl prompt_after)"
    by simp
  then show ?thesis by blast
qed

text \<open>C1: Every answer with a non-empty value appears in the prompt as its own bullet \<open>- key: value\<close>, followed by a newline.\<close>

theorem build_prompt_bullet_line:
  assumes "(k, v) \<in> set inputs" and "v \<noteq> []" and "build_prompt inputs resume_text user_type = Inr p"
  shows "sublist (manual_line k v @ nl) p"
  using assms by (rule bullet_line_in_prompt)

theorem build_prompt_bullet_line_witness:
  "(''Major'', ''Biology'') \<in> set [(''Major'', ''Biology''), (''Previous Jobs'', '''')] \<and> ''Biology'' \<noteq> [] \<and>
   build_prompt [(''Major'', ''Biology''), (''Previous Jobs'', '''')] PyNone (PyStr ''Current Job Seeker'') =
     Inr (prompt_before ''Current Job Seeker'' PyNone @ ''- Major: Biology'' @ prompt_after) \<and>
   sublist (manual_line ''Major'' ''Biology'' @ nl)
     (prompt_before ''Current Job Seeker'' PyNone @ ''- Major: Biology'' @ prompt_after)"
proof -
  have eq: "build_prompt [(''Major'', ''Biology''), (''Previous Jobs'', '''')] PyNone (PyStr ''Current Job Seeker'') =
     Inr (prompt_before ''Current Job Seeker'' PyNone @ ''- Major: Biology'' @ prompt_after)"
    by (simp add: build_prompt_PyStr manual_lines_def manual_line_def)
  show ?thesis
    using build_prompt_bullet_line [OF _ _ eq, of "''Major''" "''Biology''"] eq by simp
qed

lemma manual_lines_Cons:
  "manual_lines ((k, v) # xs) = (if v = [] then [] else [manual_line k v]) @ manual_lines xs"
  by (simp add: manual_lines_def)

lemma manual_lines_filter_empty:
  "manual_lines (filter (\<lambda>(k, v). v \<noteq> []) inputs) = manual_lines inputs"
  by (induction inputs) (auto simp: manual_lines_Cons)

text \<open>C2: Answers with an empty value contribute nothing: dropping them from the dictionary leaves the prompt (and the failure) unchanged.\<close>

theorem build_prompt_filter_empty:
  "build_prompt (filter (\<lambda>(k, v). v \<noteq> []) inputs) resume_text user_type =
   build_prompt inputs resume_text user_type"
  unfolding build_prompt_def manual_lines_filter_empty ..

text \<open>C5: Bullets appear in the dictionary's iteration order.\<close>

theorem build_prompt_bullet_order:
  assumes "inputs = xs @ [(k1, v1)] @ ys @ [(k2, v2)] @ zs" and "v1 \<noteq> []" and "v2 \<noteq> []"
    and "build_prompt inputs resume_text user_type = Inr p"
  shows "\<exists>a b c. p = a @ manual_line k1 v1 @ b @ manual_line k2 v2 @ c"
proof -
  from assms(4) obtain ut where p: "p = prompt_before ut resume_text @ py_join nl (manual_lines inputs) @ prompt_after"
    by (auto simp: build_prompt_Inr)
  from assms(1-3) have "manual_lines inputs =
      manual_lines xs @ [manual_line k1 v1] @ manual_lines ys @ [manual_line k2 v2] @ manual_lines zs"
    by (simp add: manual_lines_append manual_lines_Cons)
  then obtain a b c where "py_join nl (manual_lines inputs) = a @ manual_line k1 v1 @ b @ manual_line k2 v2 @ c"
    using py_join_order by metis
  with p have "p = (prompt_before ut resume_text @ a) @ manual_line k1 v1 @ b @ manual_line k2 v2 @ (c @ prompt_after)"
    by simp
  then show ?thesis by blast
qed

theorem build_prompt_bullet_order_witness:
  "[(''Age'', ''17''), (''Planned Major'', ''Engineering'')] = [] @ [(''Age'', ''17'')] @ [] @ [(''Planned Major'', ''Engineering'')] @ [] \<and>
   build_prompt [(''Age'', ''17''), (''Planned Major'', ''Engineering'')] PyNone (PyStr ''High School Student'') =
     Inr (prompt_before ''High School Student'' PyNone @ ''- Age: 17'' @ nl @ ''- Planned Major: Engineering'' @ prompt_after) \<and>
   (\<exists>a b c. prompt_before ''High School Student'' PyNone @ ''- Age: 17'' @ nl @ ''- Planned Major: Engineering'' @ prompt_after =
      a @ manual_line ''Age'' ''17'' @ b @ manual_line ''Planned Major'' ''Engineering'' @ c)"
proof -
  have eq: "build_prompt [(''Age'', ''17''), (''Planned Major'', ''Engineering'')] PyNone (PyStr ''High School Student'') =
     Inr (prompt_before ''High School Student'' PyNone @ ''- Age: 17'' @ nl @ ''- Planned Major: Engineering'' @ prompt_after)"
    by (simp add: build_prompt_PyStr manual_lines_def manual_line_def)
  show ?thesis
    using build_prompt_bullet_order [of _ "[]" "''Age''" "''17''" "[]" "''Planned Major''" "''Engineering''" "[]", OF _ _ _ eq] eq
    by simp
qed

lemma prompt_before_resume:
  "\<exists>a. prompt_before ut resume_text =
     a @ ''Resume Content:'' @ nl @ ''    '' @ resume_shown resume_text @ nl @ nl @ ''    Manual Inputs:'' @ nl @ ''    ''"
proof -
  have "prompt_before ut resume_text =
     (nl @ ''    You are a Career and Salary Forecasting AI.'' @ nl @ nl @
     ''    Analyze the following background and generate personalized career advice. If resume content is available, prioritize it.'' @ nl @ nl @
     ''    --- USER TYPE: '' @ py_upper ut @ '' ---'' @ nl @ nl @ ''    '') @ ''Resume Content:'' @ nl @
     ''    '' @ resume_shown resume_text @ nl @ nl @ ''    Manual Inputs:'' @ nl @ ''    ''"
    by (simp add: prompt_before_def)
  then show ?thesis by blast
qed

lemma build_prompt_resume_section:
  assumes "build_prompt inputs resume_text user_type = Inr p"
  shows "sublist (''Resume Content:'' @ nl @ ''    '' @ resume_shown resume_text @ nl @ nl @ ''    Manual Inputs:'') p"
proof -
  from assms obtain ut where p: "p = prompt_before ut resume_text @ py_join nl (manual_lines inputs) @ prompt_after"
    by (auto simp: build_prompt_Inr)
  obtain a where "prompt_before ut resume_text =
     a @ ''Resume Content:'' @ nl @ ''    '' @ resume_shown resume_text @ nl @ nl @ ''    Manual Inputs:'' @ nl @ ''    ''"
    using prompt_before_resume by blast
  with p show ?thesis by (intro sublist_middle) simp
qed

text \<open>C4: When the resume text is absent or empty, the resume section holds the placeholder \<open>[No resume provided]\<close>, never nothing.\<close>

theorem build_prompt_no_resume:
  assumes "\<not> py_truthy resume_text" and "build_prompt inputs resume_text user_type = Inr p"
  shows "sublist (''Resume Content:'' @ nl @ ''    '' @ no_resume @ nl @ nl @ ''    Manual Inputs:'') p"
  using build_prompt_resume_section [OF assms(2)] assms(1) by (simp add: resume_shown_def)

text \<open>C3: A non-empty resume text appears verbatim as the content of the resume section, between its heading and the manual-inputs heading.\<close>

theorem build_prompt_resume_verbatim:
  assumes "t \<noteq> []" and "build_prompt inputs (PyStr t) user_type = Inr p"
  shows "sublist (''Resume Content:'' @ nl @ ''    '' @ t @ nl @ nl @ ''    Manual Inputs:'') p"
  using build_prompt_resume_section [OF assms(2)] assms(1) by (simp add: resume_shown_def)

theorem build_prompt_resume_verbatim_witness:
  "''Graduated top of class.'' \<noteq> [] \<and>
   build_prompt [(''Age'', ''17'')] (PyStr ''Graduated top of class.'') (PyStr ''High School Student'') =
     Inr (prompt_before ''High School Student'' (PyStr ''Graduated top of class.'') @ ''- Age: 17'' @ prompt_after) \<and>
   sublist (''Resume Content:'' @ nl @ ''    '' @ ''Graduated top of class.'' @ nl @ nl @ ''    Manual Inputs:'')
     (prompt_before ''High School Student'' (PyStr ''Graduated top of class.'') @ ''- Age: 17'' @ prompt_after)"
proof -
  have eq: "build_prompt [(''Age'', ''17'')] (PyStr ''Graduated top of class.'') (PyStr ''High School Student'') =
     Inr (prompt_before ''High School Student'' (PyStr ''Graduated top of class.'') @ ''- Age: 17'' @ prompt_after)"
    by (simp add: build_prompt_PyStr manual_lines_def manual_line_def)
  show ?thesis using build_prompt_resume_verbatim [OF _ eq] eq by simp
qed

theorem build_prompt_no_resume_witness:
  "\<not> py_truthy (PyStr []) \<and>
   build_prompt [] (PyStr []) (PyStr ''Current Job Seeker'') =
     Inr (prompt_before ''Current Job Seeker'' (PyStr []) @ prompt_after) \<and>
   sublist (''Resume Content:'' @ nl @ ''    '' @ no_resume @ nl @ nl @ ''    Manual Inputs:'')
     (prompt_before ''Current Job Seeker'' (PyStr []) @ prompt_after)"
proof -
  have eq: "build_prompt [] (PyStr []) (PyStr ''Current Job Seeker'') =
     Inr (prompt_before ''Current Job Seeker'' (PyStr []) @ prompt_after)"
    by (simp add: build_prompt_PyStr manual_lines_def)
  show ?thesis using build_prompt_no_resume [OF _ eq] eq by simp
qed

text \<open>C6: The prompt builder fails (with \<open>AttributeError\<close> from \<open>user_type.upper()\<close>) exactly when the user type is not a string, e.g. \<open>None\<close> when no radio option is selected.\<close>

theorem build_prompt_fails:
  "(\<exists>e. build_prompt inputs resume_text user_type = Inl e) \<longleftrightarrow> (\<forall>s. user_type \<noteq> PyStr s)"
  by (cases user_type) (auto simp: build_prompt_def)

theorem build_prompt_fails_witness:
  "(\<exists>e. build_prompt [] PyNone PyNone = Inl e) \<and> \<not> (\<exists>e. build_prompt [] PyNone (PyStr ''x'') = Inl e)"
  using build_prompt_fails [of "[]" PyNone PyNone] build_prompt_fails [of "[]" PyNone "PyStr ''x''"] by simp

lemma py_upper_char_nl: "py_upper_char c = nl_char \<longleftrightarrow> c = nl_char"
proof (cases "97 \<le> (of_char c :: nat) \<and> (of_char c :: nat) \<le> 122")
  case True
  then have "(of_char (py_upper_char c) :: nat) = of_char c - 32"
    by (auto simp: py_upper_char_def Let_def intro!: mod_less)
  moreover have "(of_char nl_char :: nat) = 10" by (simp add: nl_char_def)
  ultimately have "(of_char (py_upper_char c) :: nat) \<noteq> of_char nl_char" using True by arith
  then have "py_upper_char c \<noteq> nl_char" by auto
  moreover from True have "c \<noteq> nl_char" by (auto simp: nl_char_def)
  ultimately show ?thesis by simp
next
  case False
  then show ?thesis by (auto simp: py_upper_char_def Let_def)
qed

lemma count_list_py_upper: "count_list (py_upper s) nl_char = count_list s nl_char"
  by (induction s) (simp_all add: py_upper_def py_upper_char_nl)

lemma count_prompt_before:
  "count_list (prompt_before ut resume_text) nl_char =
     11 + count_list ut nl_char + count_list (resume_shown resume_text) nl_char"
  using count_list_py_upper [of ut] by (simp add: prompt_before_def nl_def nl_char_def)

lemma count_prompt_after: "count_list prompt_after nl_char = 7"
  by (simp add: prompt_after_def nl_def en_dash_def nl_char_def)

text \<open>C25: The prompt has exactly 18 newlines of its own, plus those of the user type and the resume section, those inside the keys and values of the non-empty answers, and one between consecutive bullets: a multi-line answer spans several lines of the prompt.\<close>

theorem build_prompt_newlines:
  assumes "build_prompt inputs resume_text (PyStr ut) = Inr p"
  shows "count_list p nl_char =
    18 + count_list ut nl_char + count_list (resume_shown resume_text) nl_char +
    sum_list (map (\<lambda>(k, v). count_list k nl_char + count_list v nl_char)
                  (filter (\<lambda>(k, v). v \<noteq> []) inputs)) +
    (length (manual_lines inputs) - 1)"
proof -
  have "count_list (py_join nl (manual_lines inputs)) nl_char =
     sum_list (map (\<lambda>(k, v). count_list k nl_char + count_list v nl_char)
                  (filter (\<lambda>(k, v). v \<noteq> []) inputs)) + (length (manual_lines inputs) - 1)"
    by (simp add: count_list_py_join manual_lines_filter manual_line_def nl_def comp_def
        case_prod_unfold nl_char_def)
  moreover from assms have "p = prompt_before ut resume_text @ py_join nl (manual_lines inputs) @ prompt_after"
    by (simp add: build_prompt_PyStr)
  ultimately show ?thesis
    by (simp add: count_prompt_before count_prompt_after)
qed

theorem build_prompt_newlines_witness:
  "build_prompt [(''Previous Jobs'', ''Clerk'' @ nl @ ''Cashier'')] PyNone (PyStr ''Current Job Seeker'') =
     Inr (prompt_before ''Current Job Seeker'' PyNone @ ''- Previous Jobs: Clerk'' @ nl @ ''Cashier'' @ prompt_after) \<and>
   count_list (prompt_before ''Current Job Seeker'' PyNone @ ''- Previous Jobs: Clerk'' @ nl @ ''Cashier'' @ prompt_after) nl_char = 19"
proof -
  have eq: "build_prompt [(''Previous Jobs'', ''Clerk'' @ nl @ ''Cashier'')] PyNone (PyStr ''Current Job Seeker'') =
     Inr (prompt_before ''Current Job Seeker'' PyNone @ ''- Previous Jobs: Clerk'' @ nl @ ''Cashier'' @ prompt_after)"
    by (simp add: build_prompt_PyStr manual_lines_def manual_line_def nl_def)
  show ?thesis
    using build_prompt_newlines [OF eq] eq
    by (simp add: resume_shown_def no_resume_def manual_lines_def nl_def nl_char_def)
qed

end
