(* ===== verification/Generate.thy ===== *)
theory Generate
  imports Session Prompt
begin

text \<open>
  The button callback \<open>generate_results()\<close> (\<open>src/Career_Path_AI.py\<close>, lines
  100--112). It sets the submission flag first, builds the prompt from the dictionary
  \<open>inputs\<close> and the radio value \<open>user_type\<close> of the script run that drew the button
  and from the resume text now in the session, and sends it to the model. The
  \<open>try\<close> covers only the model call and the reading of its reply: an exception there,
  or a reply without candidates, shows an error and leaves the stored report as it was;
  an exception in \<open>build_prompt\<close> is not caught. The generative-AI client is not
  modelled: a reply is given by what \<open>model.generate_content(prompt)\<close> returns or raises.
\<close>

section \<open>Definitions\<close>

text \<open>
  A reply: the client raises, or returns a response whose \<open>candidates\<close> each carry the
  texts of their \<open>content.parts\<close>.
\<close>

datatype api_reply = ApiRaises string | ApiResponse "string list list"

definition cross_mark :: string where
  "cross_mark = [CHR 0xE2, CHR 0x9D, CHR 0x8C]"

text \<open>
  Lines 106--112 after the call: \<open>if response and response.candidates\<close> store
  \<open>response.candidates[0].content.parts[0].text\<close> (an empty \<open>parts\<close> list raises
  \<open>IndexError\<close>, caught by the \<open>except\<close>), else show the no-response error.
\<close>

definition handle_reply :: "api_reply \<Rightarrow> store \<Rightarrow> store \<times> ui_out list" where
  "handle_reply reply s =
     (case reply of
        ApiRaises m \<Rightarrow> (s, [UiError (''Error generating response: '' @ m)])
      | ApiResponse candidates \<Rightarrow>
          (case candidates of
             [] \<Rightarrow> (s, [UiError (cross_mark @ '' No response generated. Try again.'')])
           | parts # _ \<Rightarrow>
               (case parts of
                  [] \<Rightarrow> (s, [UiError (''Error generating response: '' @
                                      py_exc_str (IndexError ''list index out of range''))])
                | t # _ \<Rightarrow> (s(''career_response'' \<mapsto> PyStr t), []))))"

text \<open>
  The whole callback. The result is the store, the messages shown, and the exception
  that escapes the callback, if any.
\<close>

definition generate_results ::
  "string pydict \<Rightarrow> pyval \<Rightarrow> (string \<Rightarrow> api_reply) \<Rightarrow> store \<Rightarrow>
   store \<times> ui_out list \<times> py_error option" where
  "generate_results inputs user_type model s =
     (let s1 = s(''submit_clicked'' \<mapsto> PyBool True) in
      case ss_get s1 ''resume_text'' of
        Inl e \<Rightarrow> (s1, [], Some e)
      | Inr resume_text \<Rightarrow>
          (case build_prompt inputs resume_text user_type of
             Inl e \<Rightarrow> (s1, [], Some e)
           | Inr prompt \<Rightarrow>
               (let (s2, outs) = handle_reply (model prompt) s1 in (s2, outs, None))))"

text \<open>Line 102: the prompt the callback sends, built from the button's arguments and the
  resume text read from the session.\<close>

definition callback_prompt :: "string pydict \<Rightarrow> pyval \<Rightarrow> store \<Rightarrow> py_error + string" where
  "callback_prompt inputs user_type s =
     (case ss_get (s(''submit_clicked'' \<mapsto> PyBool True)) ''resume_text'' of
        Inl e \<Rightarrow> Inl e
      | Inr resume_text \<Rightarrow> build_prompt inputs resume_text user_type)"

section \<open>The reply\<close>

lemma handle_reply_frame:
  "handle_reply reply s = (s', outs) \<Longrightarrow> k \<noteq> ''career_response'' \<Longrightarrow> s' k = s k"
  by (auto simp: handle_reply_def split: api_reply.splits list.splits)

lemma handle_reply_stores:
  "fst (handle_reply reply s) ''career_response'' = s ''career_response'' \<or>
   (\<exists>t. fst (handle_reply reply s) ''career_response'' = Some (PyStr t))"
  by (auto simp: handle_reply_def split: api_reply.splits list.splits)

lemma generate_results_flag:
  "fst (generate_results inputs user_type model s) ''submit_clicked'' = Some (PyBool True)"
  by (auto simp: generate_results_def handle_reply_frame Let_def
      split: sum.splits prod.splits)

lemma generate_results_frame:
  "k \<noteq> ''submit_clicked'' \<Longrightarrow> k \<noteq> ''career_response'' \<Longrightarrow>
   fst (generate_results inputs user_type model s) k = s k"
  by (auto simp: generate_results_def handle_reply_frame Let_def
      split: sum.splits prod.splits)

lemma handle_reply_no_text:
  "\<not> (\<exists>t ps cs. reply = ApiResponse ((t # ps) # cs)) \<Longrightarrow> fst (handle_reply reply s) = s"
  by (auto simp: handle_reply_def split: api_reply.splits list.splits)

section \<open>Each outcome of the callback\<close>

lemma generate_results_callback_prompt:
  "generate_results inputs user_type model s =
     (case callback_prompt inputs user_type s of
        Inl e \<Rightarrow> (s(''submit_clicked'' \<mapsto> PyBool True), [], Some e)
      | Inr prompt \<Rightarrow>
          (let (s2, outs) = handle_reply (model prompt) (s(''submit_clicked'' \<mapsto> PyBool True))
           in (s2, outs, None)))"
  by (simp add: generate_results_def callback_prompt_def Let_def split: sum.split)

lemma callback_prompt_stored:
  "s ''resume_text'' = Some r \<Longrightarrow> callback_prompt inputs user_type s = build_prompt inputs r user_type"
  by (simp add: callback_prompt_def ss_get_def)

lemma generate_results_prompt:
  assumes "s ''resume_text'' = Some r" and "build_prompt inputs r user_type = Inr p"
  shows "generate_results inputs user_type model s =
    (let (s2, outs) = handle_reply (model p) (s(''submit_clicked'' \<mapsto> PyBool True)) in (s2, outs, None))"
  using assms by (simp add: generate_results_def ss_get_def)

text \<open>C7: When the model returns a candidate with a part, the callback stores that
  part's text as the report, sets the submission flag, and shows no message.\<close>

theorem generate_results_success:
  assumes "s ''resume_text'' = Some r" and "build_prompt inputs r user_type = Inr p"
    and "model p = ApiResponse ((t # parts) # candidates)"
  shows "generate_results inputs user_type model s =
    (s(''submit_clicked'' \<mapsto> PyBool True, ''career_response'' \<mapsto> PyStr t), [], None)"
  using assms by (simp add: generate_results_prompt handle_reply_def)

theorem generate_results_success_witness:
  "[''resume_text'' \<mapsto> PyNone] ''resume_text'' = Some PyNone \<and>
   build_prompt [] PyNone (PyStr ''Current Job Seeker'') = Inr (prompt_before ''Current Job Seeker'' PyNone @ prompt_after) \<and>
   (\<lambda>_. ApiResponse [[''Report'']]) (prompt_before ''Current Job Seeker'' PyNone @ prompt_after) = ApiResponse [[''Report'']] \<and>
   generate_results [] (PyStr ''Current Job Seeker'') (\<lambda>_. ApiResponse [[''Report'']]) [''resume_text'' \<mapsto> PyNone] =
     ([''resume_text'' \<mapsto> PyNone, ''submit_clicked'' \<mapsto> PyBool True, ''career_response'' \<mapsto> PyStr ''Report''], [], None)"
proof -
  have eq: "build_prompt [] PyNone (PyStr ''Current Job Seeker'') = Inr (prompt_before ''Current Job Seeker'' PyNone @ prompt_after)"
    by (simp add: build_prompt_PyStr manual_lines_def)
  show ?thesis
    using generate_results_success [of "[''resume_text'' \<mapsto> PyNone]" PyNone, OF _ eq, of "\<lambda>_. ApiResponse [[''Report'']]" "''Report''" "[]" "[]"] eq
    by simp
qed

text \<open>C8: When the model's response has no candidates, the callback shows the
  no-response error and leaves the stored report as it was (it does not clear it).\<close>

theorem generate_results_no_candidates:
  assumes "s ''resume_text'' = Some r" and "build_prompt inputs r user_type = Inr p"
    and "model p = ApiResponse []"
  shows "generate_results inputs user_type model s =
    (s(''submit_clicked'' \<mapsto> PyBool True), [UiError (cross_mark @ '' No response generated. Try again.'')], None)"
  using assms by (simp add: generate_results_prompt handle_reply_def)

theorem generate_results_no_candidates_witness:
  "[''resume_text'' \<mapsto> PyNone, ''career_response'' \<mapsto> PyStr ''Old''] ''resume_text'' = Some PyNone \<and>
   build_prompt [] PyNone (PyStr ''High School Student'') = Inr (prompt_before ''High School Student'' PyNone @ prompt_after) \<and>
   (\<lambda>_. ApiResponse []) (prompt_before ''High School Student'' PyNone @ prompt_after) = ApiResponse [] \<and>
   generate_results [] (PyStr ''High School Student'') (\<lambda>_. ApiResponse []) [''resume_text'' \<mapsto> PyNone, ''career_response'' \<mapsto> PyStr ''Old''] =
     ([''resume_text'' \<mapsto> PyNone, ''career_response'' \<mapsto> PyStr ''Old'', ''submit_clicked'' \<mapsto> PyBool True],
      [UiError (cross_mark @ '' No response generated. Try again.'')], None)"
proof -
  have eq: "build_prompt [] PyNone (PyStr ''High School Student'') = Inr (prompt_before ''High School Student'' PyNone @ prompt_after)"
    by (simp add: build_prompt_PyStr manual_lines_def)
  show ?thesis
    using generate_results_no_candidates [of "[''resume_text'' \<mapsto> PyNone, ''career_response'' \<mapsto> PyStr ''Old'']" PyNone, OF _ eq, of "\<lambda>_. ApiResponse []"] eq
    by simp
qed

text \<open>C9: When the model call raises, the callback shows the exception's message and
  leaves the stored report as it was.\<close>

theorem generate_results_raises:
  assumes "s ''resume_text'' = Some r" and "build_prompt inputs r user_type = Inr p"
    and "model p = ApiRaises m"
  shows "generate_results inputs user_type model s =
    (s(''submit_clicked'' \<mapsto> PyBool True), [UiError (''Error generating response: '' @ m)], None)"
  using assms by (simp add: generate_results_prompt handle_reply_def)

theorem generate_results_raises_witness:
  "[''resume_text'' \<mapsto> PyStr ''CV''] ''resume_text'' = Some (PyStr ''CV'') \<and>
   build_prompt [] (PyStr ''CV'') (PyStr ''High School Student'') = Inr (prompt_before ''High School Student'' (PyStr ''CV'') @ prompt_after) \<and>
   (\<lambda>_. ApiRaises ''timeout'') (prompt_before ''High School Student'' (PyStr ''CV'') @ prompt_after) = ApiRaises ''timeout'' \<and>
   generate_results [] (PyStr ''High School Student'') (\<lambda>_. ApiRaises ''timeout'') [''resume_text'' \<mapsto> PyStr ''CV''] =
     ([''resume_text'' \<mapsto> PyStr ''CV'', ''submit_clicked'' \<mapsto> PyBool True],
      [UiError (''Error generating response: '' @ ''timeout'')], None)"
proof -
  have eq: "build_prompt [] (PyStr ''CV'') (PyStr ''High School Student'') = Inr (prompt_before ''High School Student'' (PyStr ''CV'') @ prompt_after)"
    by (simp add: build_prompt_PyStr manual_lines_def)
  show ?thesis
    using generate_results_raises [of "[''resume_text'' \<mapsto> PyStr ''CV'']" "PyStr ''CV''", OF _ eq, of "\<lambda>_. ApiRaises ''timeout''"] eq
    by simp
qed

text \<open>C10: When the first candidate has no parts, \<open>parts[0]\<close> raises
  \<open>IndexError\<close> inside the \<open>try\<close>: the callback shows it as a generation error and
  leaves the stored report as it was.\<close>

theorem generate_results_empty_parts:
  assumes "s ''resume_text'' = Some r" and "build_prompt inputs r user_type = Inr p"
    and "model p = ApiResponse ([] # candidates)"
  shows "generate_results inputs user_type model s =
    (s(''submit_clicked'' \<mapsto> PyBool True),
     [UiError (''Error generating response: '' @ ''list index out of range'')], None)"
  using assms by (simp add: generate_results_prompt handle_reply_def)

theorem generate_results_empty_parts_witness:
  "[''resume_text'' \<mapsto> PyNone] ''resume_text'' = Some PyNone \<and>
   build_prompt [] PyNone (PyStr ''Current Job Seeker'') = Inr (prompt_before ''Current Job Seeker'' PyNone @ prompt_after) \<and>
   (\<lambda>_. ApiResponse [[]]) (prompt_before ''Current Job Seeker'' PyNone @ prompt_after) = ApiResponse [[]] \<and>
   generate_results [] (PyStr ''Current Job Seeker'') (\<lambda>_. ApiResponse [[]]) [''resume_text'' \<mapsto> PyNone] =
     ([''resume_text'' \<mapsto> PyNone, ''submit_clicked'' \<mapsto> PyBool True],
      [UiError (''Error generating response: '' @ ''list index out of range'')], None)"
proof -
  have eq: "build_prompt [] PyNone (PyStr ''Current Job Seeker'') = Inr (prompt_before ''Current Job Seeker'' PyNone @ prompt_after)"
    by (simp add: build_prompt_PyStr manual_lines_def)
  show ?thesis
    using generate_results_empty_parts [of "[''resume_text'' \<mapsto> PyNone]" PyNone, OF _ eq, of "\<lambda>_. ApiResponse [[]]" "[]"] eq
    by simp
qed

text \<open>C11: With no user type selected, the callback sets the submission flag and then
  raises out of \<open>build_prompt\<close> before calling the model: the exception is not caught,
  nothing is shown by the callback, and the report is unchanged.\<close>

theorem generate_results_uncaught:
  "\<exists>e. generate_results inputs PyNone model s = (s(''submit_clicked'' \<mapsto> PyBool True), [], Some e)"
  by (simp add: generate_results_def build_prompt_def Let_def split: sum.split)

end
