(* ===== verification/App.thy ===== *)
theory App
  imports Resume Form Generate
begin

text \<open>
  The application as Streamlit runs it. Every interaction re-executes the whole script
  (\<open>src/Career_Path_AI.py\<close>, top to bottom): initialise the session, draw the radio
  (which writes \<open>st.session_state.user_type\<close>), handle an uploaded PDF, draw the form,
  draw the button, and show the report section (lines 117--123). A click on the button
  first runs the callback \<open>generate_results\<close>, with the \<open>inputs\<close> and \<open>user_type\<close>
  of the run that drew the button, and then re-executes the script; an exception that
  escapes the callback is shown and ends the interaction. The application state is
  the session store and the callback bound to the button drawn last. The theory proves
  the invariant of the reachable states by rule induction, the agreement of the
  button's arguments with the session, the refinement of the specification's submission
  machine, and that a selected user type and a model reply with text always lead to a
  shown report.
\<close>

section \<open>Definitions\<close>

text \<open>What the user has done on the page before the run: the radio choice
  (\<open>PyNone\<close> when nothing is selected), the uploaded file, the widget entries.\<close>

record run_env =
  radio :: pyval
  uploaded :: "pdf option"
  answers :: widget_env

definition compass :: string where
  "compass = [CHR 0xF0, CHR 0x9F, CHR 0xA7, CHR 0xAD]"

text \<open>Lines 118--123: the report section, reading the session.\<close>

definition display_report :: "store \<Rightarrow> py_error + ui_out list" where
  "display_report s =
     (case ss_get s ''submit_clicked'' of
        Inl e \<Rightarrow> Inl e
      | Inr clicked \<Rightarrow>
          (if \<not> py_truthy clicked then Inr []
           else (case ss_get s ''career_response'' of
                   Inl e \<Rightarrow> Inl e
                 | Inr report \<Rightarrow>
                     Inr ([UiMarkdown (''## '' @ compass @ '' Your Personalized Career Report'')] @
                          (if py_truthy report then [UiMarkdown (py_str report)]
                           else [UiWarning ''No career response generated. Try refining your input or uploading a resume.''])))))"

text \<open>One execution of the script: the new store, what it shows, and the arguments the
  button's callback will see (\<open>inputs\<close>, \<open>user_type\<close>).\<close>

definition script_run :: "run_env \<Rightarrow> store \<Rightarrow> store \<times> ui_out list \<times> (string pydict \<times> pyval)" where
  "script_run env s =
     (let s1 = session_init s;
          user_type = radio env;
          s2 = s1(''user_type'' \<mapsto> user_type);
          (s3, outs1) = upload_resume (uploaded env) s2;
          inputs = manual_inputs user_type (answers env);
          outs2 = (case display_report s3 of Inl e \<Rightarrow> [UiException e] | Inr outs \<Rightarrow> outs)
      in (s3, outs1 @ outs2, (inputs, user_type)))"

record app =
  ss :: store
  button :: "(string pydict \<times> pyval) option"

definition app_init :: app where
  "app_init = \<lparr>ss = Map.empty, button = None\<rparr>"

text \<open>An interaction: a plain rerun (typing, choosing, uploading), or a click on the
  button, with the model's behaviour for the prompt it is sent.\<close>

datatype event = Rerun run_env | Click "string \<Rightarrow> api_reply" run_env

definition app_step :: "app \<Rightarrow> event \<Rightarrow> app \<times> ui_out list" where
  "app_step a ev =
     (case ev of
        Rerun env \<Rightarrow>
          (let (s', outs, cb) = script_run env (ss a) in (\<lparr>ss = s', button = Some cb\<rparr>, outs))
      | Click model env \<Rightarrow>
          (case button a of
             None \<Rightarrow> (a, [])
           | Some (inputs, user_type) \<Rightarrow>
               (let (s1, outs1, exc) = generate_results inputs user_type model (ss a) in
                case exc of
                  Some e \<Rightarrow> (a\<lparr>ss := s1\<rparr>, outs1 @ [UiException e])
                | None \<Rightarrow>
                    (let (s2, outs2, cb) = script_run env s1
                     in (\<lparr>ss = s2, button = Some cb\<rparr>, outs1 @ outs2)))))"

fun event_env :: "event \<Rightarrow> run_env" where
  "event_env (Rerun env) = env"
| "event_env (Click _ env) = env"

text \<open>The radio yields one of its options, or \<open>None\<close> before any choice.\<close>

definition event_ok :: "event \<Rightarrow> bool" where
  "event_ok ev \<longleftrightarrow>
     radio (event_env ev) = PyNone \<or> radio (event_env ev) \<in> PyStr ` set user_type_options"

inductive reachable :: "app \<Rightarrow> bool" where
  init: "reachable app_init"
| step: "reachable a \<Longrightarrow> event_ok ev \<Longrightarrow> reachable (fst (app_step a ev))"

fun app_run :: "app \<Rightarrow> event list \<Rightarrow> app \<times> ui_out list list" where
  "app_run a [] = (a, [])"
| "app_run a (ev # evs) =
     (let (a', outs) = app_step a ev; (a'', pages) = app_run a' evs in (a'', outs # pages))"

text \<open>No report is stored before the first submission.\<close>

fun truthy_slot :: "pyval option \<Rightarrow> bool" where
  "truthy_slot None = False"
| "truthy_slot (Some v) = py_truthy v"

definition no_early_report :: "store \<Rightarrow> bool" where
  "no_early_report s \<longleftrightarrow>
     s ''submit_clicked'' = Some (PyBool True) \<or> \<not> truthy_slot (s ''career_response'')"

definition app_inv :: "app \<Rightarrow> bool" where
  "app_inv a \<longleftrightarrow>
     slots_ok (ss a) \<and> no_early_report (ss a) \<and>
     (case button a of
        None \<Rightarrow> True
      | Some (_, user_type) \<Rightarrow> session_wf (ss a) \<and> str_slot (Some user_type))"

section \<open>The specification's submission state machine\<close>

text \<open>
  The specification (section 4.2) describes the submission as a state machine: Idle
  until the first submit; after a submit, Succeeded when the model returned non-empty
  text and Failed otherwise, whatever the state before. The code's phase is read off the
  session: the flag \<open>submit_clicked\<close> and whether \<open>career_response\<close> is truthy, as the
  report section (lines 118--123) reads them.
\<close>

datatype phase = Idle | Succeeded | Failed

definition phase_of :: "store \<Rightarrow> phase" where
  "phase_of s =
     (if s ''submit_clicked'' = Some (PyBool True)
      then (if truthy_slot (s ''career_response'') then Succeeded else Failed)
      else Idle)"

fun reply_succeeds :: "api_reply \<Rightarrow> bool" where
  "reply_succeeds (ApiResponse ((t # _) # _)) = (t \<noteq> [])"
| "reply_succeeds _ = False"

definition spec_submit :: "bool \<Rightarrow> phase" where
  "spec_submit ok = (if ok then Succeeded else Failed)"

section \<open>Invariant of the reachable states\<close>

lemma session_wf_slots_ok: "session_wf s \<Longrightarrow> slots_ok s"
  by (simp add: session_wf_def slots_ok_def)

lemma script_run_eq:
  "script_run env s =
     (fst (upload_resume (uploaded env) ((session_init s)(''user_type'' \<mapsto> radio env))),
      snd (upload_resume (uploaded env) ((session_init s)(''user_type'' \<mapsto> radio env))) @
      (case display_report (fst (upload_resume (uploaded env) ((session_init s)(''user_type'' \<mapsto> radio env)))) of
         Inl e \<Rightarrow> [UiException e] | Inr outs \<Rightarrow> outs),
      (manual_inputs (radio env) (answers env), radio env))"
  by (simp add: script_run_def Let_def split: prod.splits)

lemma radio_str_slot:
  "radio env = PyNone \<or> radio env \<in> PyStr ` set user_type_options \<Longrightarrow> str_slot (Some (radio env))"
  by auto

lemma script_run_wf:
  assumes "slots_ok s" and "str_slot (Some (radio env))"
  shows "session_wf (fst (script_run env s))"
proof -
  from assms(1) have "session_wf (session_init s)" by (rule session_init_wf)
  with assms(2) have "session_wf ((session_init s)(''user_type'' \<mapsto> radio env))"
    by (simp add: session_wf_def)
  then show ?thesis by (simp add: script_run_eq upload_resume_wf)
qed

lemma handle_reply_wf: "session_wf s \<Longrightarrow> session_wf (fst (handle_reply reply s))"
  by (auto simp: handle_reply_def session_wf_def split: api_reply.splits list.splits)

lemma generate_results_store:
  "fst (generate_results inputs user_type model s) = s(''submit_clicked'' \<mapsto> PyBool True) \<or>
   (\<exists>reply. fst (generate_results inputs user_type model s) =
      fst (handle_reply reply (s(''submit_clicked'' \<mapsto> PyBool True))))"
  by (auto simp: generate_results_def Let_def split: sum.splits prod.splits) (metis fst_conv)

lemma generate_results_wf:
  assumes "session_wf s"
  shows "session_wf (fst (generate_results inputs user_type model s))"
proof -
  from assms have "session_wf (s(''submit_clicked'' \<mapsto> PyBool True))"
    by (simp add: session_wf_def)
  with generate_results_store [of inputs user_type model s] show ?thesis
    using handle_reply_wf by auto
qed

lemma display_report_ok: "session_wf s \<Longrightarrow> \<exists>outs. display_report s = Inr outs"
  using session_wf_reads [of s "''submit_clicked''"] session_wf_reads [of s "''career_response''"]
  by (auto simp: display_report_def session_keys_def split: sum.splits)

lemma script_run_other:
  "k \<noteq> ''user_type'' \<Longrightarrow> k \<noteq> ''resume_text'' \<Longrightarrow> fst (script_run env s) k = session_init s k"
  by (simp add: script_run_eq upload_resume_frame)

lemma script_run_button:
  "snd (snd (script_run env s)) = (manual_inputs (radio env) (answers env), radio env)"
  by (simp add: script_run_eq)

lemma script_run_no_early_report:
  "no_early_report s \<Longrightarrow> no_early_report (fst (script_run env s))"
  by (auto simp: no_early_report_def script_run_other session_init_apply session_keys_def)

lemma generate_results_no_early_report:
  "no_early_report (fst (generate_results inputs user_type model s))"
  by (simp add: no_early_report_def generate_results_flag)

lemma app_step_inv:
  assumes "app_inv a" and "event_ok ev"
  shows "app_inv (fst (app_step a ev))"
proof (cases ev)
  case (Rerun env)
  from assms Rerun have radio: "str_slot (Some (radio env))"
    by (auto simp: event_ok_def user_type_options_def)
  with assms have "session_wf (fst (script_run env (ss a)))"
    by (intro script_run_wf) (auto simp: app_inv_def)
  moreover from assms(1) have "no_early_report (fst (script_run env (ss a)))"
    by (intro script_run_no_early_report) (simp add: app_inv_def)
  ultimately show ?thesis using Rerun radio script_run_button [of env "ss a"]
    by (auto simp: app_step_def app_inv_def session_wf_slots_ok split: prod.splits)
next
  case (Click model env)
  show ?thesis
  proof (cases "button a")
    case None
    with Click assms(1) show ?thesis by (simp add: app_step_def)
  next
    case (Some cb)
    obtain inputs user_type where cb: "cb = (inputs, user_type)" by fastforce
    let ?g = "generate_results inputs user_type model (ss a)"
    from assms(2) Click have radio: "str_slot (Some (radio env))"
      by (auto simp: event_ok_def user_type_options_def)
    from assms(1) Some cb have wf: "session_wf (ss a)" and ut: "str_slot (Some user_type)"
      by (auto simp: app_inv_def)
    from wf have wf1: "session_wf (fst ?g)" by (rule generate_results_wf)
    then have "session_wf (fst (script_run env (fst ?g)))"
      using radio by (intro script_run_wf session_wf_slots_ok)
    moreover have "no_early_report (fst (script_run env (fst ?g)))"
      by (intro script_run_no_early_report generate_results_no_early_report)
    moreover note generate_results_no_early_report [of inputs user_type model "ss a"]
    ultimately show ?thesis using wf1 Click Some cb ut radio script_run_button [of env "fst ?g"]
      by (auto simp: app_step_def app_inv_def session_wf_slots_ok split: prod.splits option.splits)
  qed
qed

lemma reachable_inv: "reachable a \<Longrightarrow> app_inv a"
proof (induction rule: reachable.induct)
  case init
  show ?case by (simp add: app_inv_def app_init_def slots_ok_def no_early_report_def)
next
  case (step a ev)
  from step.IH step.hyps(2) show ?case by (rule app_step_inv)
qed

section \<open>Safety and refinement\<close>

lemma reachable_app_inv: "reachable a \<Longrightarrow> app_inv a"
  by (rule reachable_inv)

lemma upload_resume_no_exception: "UiException e \<notin> set (snd (upload_resume u s))"
  by (auto simp: upload_resume_def split: option.splits sum.splits)

lemma display_report_no_exception: "display_report s = Inr outs \<Longrightarrow> UiException e \<notin> set outs"
  by (auto simp: display_report_def split: sum.splits if_splits)

lemma script_run_no_exception:
  assumes "slots_ok s" and "str_slot (Some (radio env))"
  shows "UiException e \<notin> set (fst (snd (script_run env s)))"
proof -
  from assms have "session_wf (fst (script_run env s))" by (rule script_run_wf)
  then obtain outs where "display_report (fst (script_run env s)) = Inr outs"
    using display_report_ok by blast
  then show ?thesis
    using upload_resume_no_exception display_report_no_exception
    by (auto simp: script_run_eq)
qed

lemma generate_results_outs_no_exception:
  "UiException e \<notin> set (fst (snd (generate_results inputs user_type model s)))"
  by (auto simp: generate_results_def handle_reply_def Let_def
      split: sum.splits prod.splits api_reply.splits list.splits)

lemma generate_results_exc:
  assumes "session_wf s" and "snd (snd (generate_results inputs user_type model s)) \<noteq> None"
  shows "\<forall>u. user_type \<noteq> PyStr u"
proof -
  from assms(1) obtain r where "s ''resume_text'' = Some r"
    by (auto simp: session_wf_def elim: str_slot.elims)
  with assms(2) show ?thesis
    by (auto simp: generate_results_def ss_get_def build_prompt_PyStr Let_def
        split: prod.splits)
qed

lemma str_slot_not_PyStr: "str_slot (Some v) \<Longrightarrow> \<forall>u. v \<noteq> PyStr u \<Longrightarrow> v = PyNone"
  by (cases v) auto

lemma app_step_Rerun:
  "fst (app_step a (Rerun env)) =
     \<lparr>ss = fst (script_run env (ss a)), button = Some (snd (snd (script_run env (ss a))))\<rparr>"
  by (simp add: app_step_def split: prod.splits)

lemma app_step_Click_ss:
  "ss (fst (app_step a (Click model env))) =
     (case button a of
        None \<Rightarrow> ss a
      | Some (inputs, user_type) \<Rightarrow>
          (if snd (snd (generate_results inputs user_type model (ss a))) = None
           then fst (script_run env (fst (generate_results inputs user_type model (ss a))))
           else fst (generate_results inputs user_type model (ss a))))"
  by (simp add: app_step_def split: option.splits prod.splits)

lemma app_step_flag:
  "ss a ''submit_clicked'' = Some (PyBool True) \<Longrightarrow>
   ss (fst (app_step a ev)) ''submit_clicked'' = Some (PyBool True)"
  by (cases ev) (auto simp: app_step_Rerun app_step_Click_ss script_run_other generate_results_flag
      split: option.splits)

lemma app_run_fst_Cons: "fst (app_run a (ev # evs)) = fst (app_run (fst (app_step a ev)) evs)"
  by (simp split: prod.splits)

text \<open>C12: In every reachable state in which the page has been drawn, the session
  store is well typed: the user type, the resume text and the report are strings or
  \<open>None\<close>, and the submission flag is a boolean.\<close>

theorem reachable_session_wf:
  assumes "reachable a" and "button a \<noteq> None"
  shows "session_wf (ss a)"
  using reachable_app_inv [OF assms(1)] assms(2) by (auto simp: app_inv_def)

theorem reachable_session_wf_witness:
  "reachable (fst (app_step app_init (Rerun \<lparr>radio = PyNone, uploaded = None, answers = (\<lambda>_. None)\<rparr>))) \<and>
   button (fst (app_step app_init (Rerun \<lparr>radio = PyNone, uploaded = None, answers = (\<lambda>_. None)\<rparr>))) \<noteq> None \<and>
   session_wf (ss (fst (app_step app_init (Rerun \<lparr>radio = PyNone, uploaded = None, answers = (\<lambda>_. None)\<rparr>))))"
proof -
  let ?ev = "Rerun \<lparr>radio = PyNone, uploaded = None, answers = (\<lambda>_. None)\<rparr>"
  have r: "reachable (fst (app_step app_init ?ev))"
    by (rule reachable.step [OF reachable.init]) (simp add: event_ok_def)
  have b: "button (fst (app_step app_init ?ev)) \<noteq> None"
    by (simp add: app_step_def split: prod.splits)
  show ?thesis using reachable_session_wf [OF r b] r b by simp
qed

text \<open>C13: Reading the session never fails in a reachable state: the only exception a
  page can show is the one a click raises out of \<open>build_prompt\<close> when the button was
  drawn with no user type selected.\<close>

theorem step_exception_only_unselected:
  assumes "reachable a" and "event_ok ev" and "UiException e \<in> set (snd (app_step a ev))"
  shows "(\<exists>model env. ev = Click model env) \<and> (\<exists>inputs. button a = Some (inputs, PyNone))"
proof -
  from assms(1) have inv: "app_inv a" by (rule reachable_app_inv)
  from assms(2) have radio: "str_slot (Some (radio (event_env ev)))"
    by (auto simp: event_ok_def user_type_options_def)
  show ?thesis
  proof (cases ev)
    case (Rerun env)
    with inv radio have "UiException e \<notin> set (fst (snd (script_run env (ss a))))"
      by (intro script_run_no_exception) (auto simp: app_inv_def)
    with assms(3) Rerun show ?thesis by (simp add: app_step_def split: prod.splits)
  next
    case (Click model env)
    show ?thesis
    proof (cases "button a")
      case None
      with assms(3) Click show ?thesis by (simp add: app_step_def)
    next
      case (Some cb)
      obtain inputs user_type where cb: "cb = (inputs, user_type)" by fastforce
      let ?g = "generate_results inputs user_type model (ss a)"
      from inv Some cb have wf: "session_wf (ss a)" and ut: "str_slot (Some user_type)"
        by (auto simp: app_inv_def)
      show ?thesis
      proof (cases "snd (snd ?g)")
        case None
        from wf have "session_wf (fst ?g)" by (rule generate_results_wf)
        with radio Click have "UiException e \<notin> set (fst (snd (script_run env (fst ?g))))"
          by (intro script_run_no_exception session_wf_slots_ok) auto
        with assms(3) Click Some cb None generate_results_outs_no_exception [of e inputs user_type model "ss a"]
        show ?thesis by (auto simp: app_step_def split: prod.splits)
      next
        case (Some x)
        with wf have "\<forall>u. user_type \<noteq> PyStr u" by (intro generate_results_exc) auto
        with ut have "user_type = PyNone" by (rule str_slot_not_PyStr)
        with Click \<open>button a = Some cb\<close> cb show ?thesis by simp
      qed
    qed
  qed
qed

theorem step_exception_only_unselected_witness:
  "reachable (fst (app_step app_init (Rerun \<lparr>radio = PyNone, uploaded = None, answers = (\<lambda>_. None)\<rparr>))) \<and>
   event_ok (Click (\<lambda>_. ApiResponse []) \<lparr>radio = PyNone, uploaded = None, answers = (\<lambda>_. None)\<rparr>) \<and>
   UiException (AttributeError (q @ ''NoneType'' @ q @ '' object has no attribute '' @ q @ ''upper'' @ q)) \<in>
     set (snd (app_step (fst (app_step app_init (Rerun \<lparr>radio = PyNone, uploaded = None, answers = (\<lambda>_. None)\<rparr>)))
                (Click (\<lambda>_. ApiResponse []) \<lparr>radio = PyNone, uploaded = None, answers = (\<lambda>_. None)\<rparr>))) \<and>
   button (fst (app_step app_init (Rerun \<lparr>radio = PyNone, uploaded = None, answers = (\<lambda>_. None)\<rparr>))) = Some ([], PyNone)"
proof -
  let ?env = "\<lparr>radio = PyNone, uploaded = None, answers = (\<lambda>_. None)\<rparr>"
  let ?a = "fst (app_step app_init (Rerun ?env))"
  let ?ev = "Click (\<lambda>_. ApiResponse []) ?env"
  have r: "reachable ?a"
    by (rule reachable.step [OF reachable.init]) (simp add: event_ok_def)
  have ok: "event_ok ?ev" by (simp add: event_ok_def)
  have b: "button ?a = Some ([], PyNone)"
    by (simp add: app_step_def script_run_eq manual_inputs_def form_fields_def)
  have st: "ss ?a ''resume_text'' = Some PyNone"
    by (simp add: app_step_def script_run_eq upload_resume_def session_init_apply session_keys_def
        app_init_def)
  have x: "UiException (AttributeError (q @ ''NoneType'' @ q @ '' object has no attribute '' @ q @ ''upper'' @ q)) \<in>
     set (snd (app_step ?a ?ev))"
    using b st by (simp add: app_step_def generate_results_def ss_get_def build_prompt_def Let_def)
  show ?thesis using step_exception_only_unselected [OF r ok x] r ok x b by simp
qed

lemma phase_of_script_run:
  assumes "session_wf s"
  shows "phase_of (fst (script_run env s)) = phase_of s"
proof -
  from assms obtain f g where "s ''submit_clicked'' = Some f" and "s ''career_response'' = Some g"
    by (auto simp: session_wf_def elim!: str_slot.elims bool_slot.elims)
  then show ?thesis by (simp add: phase_of_def script_run_other)
qed

lemma phase_of_handle_reply:
  assumes "s ''submit_clicked'' = Some (PyBool True)" and "\<not> truthy_slot (s ''career_response'')"
  shows "phase_of (fst (handle_reply reply s)) = spec_submit (reply_succeeds reply)"
  using assms
  by (auto simp: phase_of_def spec_submit_def handle_reply_def
      split: api_reply.splits list.splits)

lemma not_succeeded_no_report:
  "no_early_report s \<Longrightarrow> phase_of s \<noteq> Succeeded \<Longrightarrow> \<not> truthy_slot (s ''career_response'')"
  by (auto simp: no_early_report_def phase_of_def split: if_splits)

text \<open>C14: Once the submission flag is set it stays set, whatever interactions follow.\<close>

theorem submit_flag_sticky:
  "ss a ''submit_clicked'' = Some (PyBool True) \<Longrightarrow>
   ss (fst (app_run a evs)) ''submit_clicked'' = Some (PyBool True)"
proof (induction evs arbitrary: a)
  case Nil
  then show ?case by simp
next
  case (Cons ev evs)
  from Cons.prems have "ss (fst (app_step a ev)) ''submit_clicked'' = Some (PyBool True)"
    by (rule app_step_flag)
  then have "ss (fst (app_run (fst (app_step a ev)) evs)) ''submit_clicked'' = Some (PyBool True)"
    by (rule Cons.IH)
  then show ?case by (simp only: app_run_fst_Cons)
qed

theorem submit_flag_sticky_witness:
  "ss \<lparr>ss = [''submit_clicked'' \<mapsto> PyBool True], button = None\<rparr> ''submit_clicked'' = Some (PyBool True) \<and>
   ss (fst (app_run \<lparr>ss = [''submit_clicked'' \<mapsto> PyBool True], button = None\<rparr>
                    [Rerun \<lparr>radio = PyNone, uploaded = None, answers = (\<lambda>_. None)\<rparr>])) ''submit_clicked''
     = Some (PyBool True)"
  using submit_flag_sticky [of "\<lparr>ss = [''submit_clicked'' \<mapsto> PyBool True], button = None\<rparr>"
      "[Rerun \<lparr>radio = PyNone, uploaded = None, answers = (\<lambda>_. None)\<rparr>]"]
  by simp

text \<open>C15: From a state that is not Succeeded, a click refines the specification's
  submission machine: the phase after the click is Succeeded when the model's reply to
  the prompt built from the button's answers and the stored resume carries non-empty
  text, and Failed otherwise.\<close>

theorem click_refines_spec:
  assumes "reachable a" and "button a = Some (inputs, PyStr u)"
    and "ss a ''resume_text'' = Some r" and "phase_of (ss a) \<noteq> Succeeded"
  shows "phase_of (ss (fst (app_step a (Click model env)))) =
    spec_submit (reply_succeeds (model (prompt_before u r @ py_join nl (manual_lines inputs) @ prompt_after)))"
proof -
  let ?p = "prompt_before u r @ py_join nl (manual_lines inputs) @ prompt_after"
  let ?s1 = "(ss a)(''submit_clicked'' \<mapsto> PyBool True)"
  from assms(1) have inv: "app_inv a" by (rule reachable_app_inv)
  with assms(2) have wf: "session_wf (ss a)" by (simp add: app_inv_def)
  from inv assms(4) have quiet: "\<not> truthy_slot (ss a ''career_response'')"
    by (intro not_succeeded_no_report) (simp_all add: app_inv_def)
  have prompt: "build_prompt inputs r (PyStr u) = Inr ?p" by (rule build_prompt_PyStr)
  have g: "generate_results inputs (PyStr u) model (ss a) =
      (fst (handle_reply (model ?p) ?s1), snd (handle_reply (model ?p) ?s1), None)"
    using generate_results_prompt [of "ss a" r inputs "PyStr u" ?p model, OF assms(3) prompt]
    by (simp split: prod.splits)
  from wf have "session_wf ?s1" by (simp add: session_wf_def)
  then have wf2: "session_wf (fst (handle_reply (model ?p) ?s1))" by (rule handle_reply_wf)
  have "phase_of (fst (handle_reply (model ?p) ?s1)) = spec_submit (reply_succeeds (model ?p))"
    using quiet by (intro phase_of_handle_reply) simp_all
  with wf2 g assms(2) show ?thesis
    by (simp add: app_step_Click_ss phase_of_script_run)
qed

theorem click_refines_spec_witness:
  "reachable (fst (app_step app_init (Rerun \<lparr>radio = PyStr ''Current Job Seeker'', uploaded = None, answers = (\<lambda>_. None)\<rparr>))) \<and>
   button (fst (app_step app_init (Rerun \<lparr>radio = PyStr ''Current Job Seeker'', uploaded = None, answers = (\<lambda>_. None)\<rparr>))) =
     Some (manual_inputs (PyStr ''Current Job Seeker'') (\<lambda>_. None), PyStr ''Current Job Seeker'') \<and>
   ss (fst (app_step app_init (Rerun \<lparr>radio = PyStr ''Current Job Seeker'', uploaded = None, answers = (\<lambda>_. None)\<rparr>))) ''resume_text'' = Some PyNone \<and>
   phase_of (ss (fst (app_step app_init (Rerun \<lparr>radio = PyStr ''Current Job Seeker'', uploaded = None, answers = (\<lambda>_. None)\<rparr>)))) \<noteq> Succeeded \<and>
   phase_of (ss (fst (app_step (fst (app_step app_init (Rerun \<lparr>radio = PyStr ''Current Job Seeker'', uploaded = None, answers = (\<lambda>_. None)\<rparr>)))
     (Click (\<lambda>_. ApiResponse [[''Report'']]) \<lparr>radio = PyStr ''Current Job Seeker'', uploaded = None, answers = (\<lambda>_. None)\<rparr>)))) = Succeeded"
proof -
  let ?env = "\<lparr>radio = PyStr ''Current Job Seeker'', uploaded = None, answers = (\<lambda>_. None)\<rparr>"
  let ?a = "fst (app_step app_init (Rerun ?env))"
  have r: "reachable ?a"
    by (rule reachable.step [OF reachable.init]) (simp add: event_ok_def user_type_options_def)
  have b: "button ?a = Some (manual_inputs (PyStr ''Current Job Seeker'') (\<lambda>_. None), PyStr ''Current Job Seeker'')"
    by (simp add: app_step_Rerun script_run_button)
  have st: "ss ?a ''resume_text'' = Some PyNone"
    by (simp add: app_step_Rerun script_run_eq upload_resume_def session_init_apply session_keys_def app_init_def)
  have idle: "phase_of (ss ?a) \<noteq> Succeeded"
    by (simp add: app_step_Rerun script_run_other session_init_apply session_keys_def app_init_def phase_of_def)
  show ?thesis
    using click_refines_spec [OF r b st idle, of "\<lambda>_. ApiResponse [[''Report'']]" ?env] r b st idle
    by (simp add: spec_submit_def)
qed

section \<open>Agreement of the button with the session, and progress\<close>

lemma script_run_user_type: "fst (script_run env s) ''user_type'' = Some (radio env)"
  by (simp add: script_run_eq upload_resume_frame)

lemma app_step_Click:
  "button a = Some (inputs, u) \<Longrightarrow> generate_results inputs u model (ss a) = (s1, outs1, exc) \<Longrightarrow>
   app_step a (Click model env) =
     (case exc of
        Some e \<Rightarrow> (a\<lparr>ss := s1\<rparr>, outs1 @ [UiException e])
      | None \<Rightarrow> (\<lparr>ss = fst (script_run env s1), button = Some (snd (snd (script_run env s1)))\<rparr>,
                 outs1 @ fst (snd (script_run env s1))))"
  by (simp add: app_step_def split: prod.splits option.splits)

lemma app_step_button_agrees:
  assumes "\<And>i v. button a = Some (i, v) \<Longrightarrow> ss a ''user_type'' = Some v \<and> (\<exists>ans. i = manual_inputs v ans)"
    and "button (fst (app_step a ev)) = Some (inputs', u')"
  shows "ss (fst (app_step a ev)) ''user_type'' = Some u' \<and> (\<exists>ans. inputs' = manual_inputs u' ans)"
proof (cases ev)
  case (Rerun env)
  with assms(2) show ?thesis
    by (auto simp: app_step_Rerun script_run_button script_run_user_type)
next
  case (Click model env)
  show ?thesis
  proof (cases "button a")
    case None
    with assms(2) Click show ?thesis by (simp add: app_step_def)
  next
    case (Some cb)
    obtain i0 u0 where cb: "cb = (i0, u0)" by fastforce
    obtain s1 outs1 exc where g: "generate_results i0 u0 model (ss a) = (s1, outs1, exc)"
      by (cases "generate_results i0 u0 model (ss a)") auto
    show ?thesis
    proof (cases exc)
      case None
      with assms(2) Click Some cb g show ?thesis
        by (auto simp: app_step_Click script_run_button script_run_user_type)
    next
      case (Some e)
      from g have "s1 ''user_type'' = ss a ''user_type''"
        using generate_results_frame [of "''user_type''" i0 u0 model "ss a"] by simp
      moreover from Click \<open>button a = Some cb\<close> cb g Some
      have "fst (app_step a ev) = a\<lparr>ss := s1\<rparr>" by (simp add: app_step_Click)
      ultimately show ?thesis using assms by auto
    qed
  qed
qed

text \<open>C26: In every reachable state, the callback bound to the button carries the
  user type that the session holds and the answers dictionary of that user type's
  form: the arguments frozen when the button was drawn agree with the session.\<close>

theorem reachable_button_agrees:
  "reachable a \<Longrightarrow> button a = Some (inputs, u) \<Longrightarrow>
   ss a ''user_type'' = Some u \<and> (\<exists>ans. inputs = manual_inputs u ans)"
proof (induction arbitrary: inputs u rule: reachable.induct)
  case init
  then show ?case by (simp add: app_init_def)
next
  case (step a ev)
  from step.IH step.prems show ?case by (rule app_step_button_agrees)
qed


theorem reachable_button_agrees_witness:
  "reachable (fst (app_step app_init (Rerun \<lparr>radio = PyStr ''High School Student'', uploaded = None, answers = (\<lambda>_. None)\<rparr>))) \<and>
   button (fst (app_step app_init (Rerun \<lparr>radio = PyStr ''High School Student'', uploaded = None, answers = (\<lambda>_. None)\<rparr>))) =
     Some (manual_inputs (PyStr ''High School Student'') (\<lambda>_. None), PyStr ''High School Student'') \<and>
   ss (fst (app_step app_init (Rerun \<lparr>radio = PyStr ''High School Student'', uploaded = None, answers = (\<lambda>_. None)\<rparr>))) ''user_type'' =
     Some (PyStr ''High School Student'')"
proof -
  let ?env = "\<lparr>radio = PyStr ''High School Student'', uploaded = None, answers = (\<lambda>_. None)\<rparr>"
  let ?a = "fst (app_step app_init (Rerun ?env))"
  have r: "reachable ?a"
    by (rule reachable.step [OF reachable.init]) (simp add: event_ok_def user_type_options_def)
  have b: "button ?a = Some (manual_inputs (PyStr ''High School Student'') (\<lambda>_. None), PyStr ''High School Student'')"
    by (simp add: app_step_Rerun script_run_button)
  show ?thesis using reachable_button_agrees [OF r b] r b by simp
qed

lemma script_run_resume_present: "fst (script_run env s) ''resume_text'' \<noteq> None"
  by (auto simp: script_run_eq upload_resume_def session_init_apply session_keys_def
      split: option.splits sum.splits)

lemma display_report_shows:
  "s ''submit_clicked'' = Some (PyBool True) \<Longrightarrow> s ''career_response'' = Some (PyStr t) \<Longrightarrow> t \<noteq> [] \<Longrightarrow>
   display_report s = Inr [UiMarkdown (''## '' @ compass @ '' Your Personalized Career Report''), UiMarkdown t]"
  by (simp add: display_report_def ss_get_def)

lemma script_run_shows_report:
  "display_report (fst (script_run env s)) = Inr outs \<Longrightarrow> set outs \<subseteq> set (fst (snd (script_run env s)))"
  by (auto simp: script_run_def Let_def split: prod.splits)

lemma app_run_two:
  "app_run a [e1, e2] =
     (fst (app_step (fst (app_step a e1)) e2), [snd (app_step a e1), snd (app_step (fst (app_step a e1)) e2)])"
  by (simp split: prod.splits)

text \<open>C27: From any state, a rerun with a user type selected followed by a click whose
  model answers with non-empty text always reaches the Succeeded phase, and the page
  drawn after the click shows that text as the report.\<close>

theorem submit_reaches_report:
  assumes "radio env = PyStr u" and "t \<noteq> []"
  shows "phase_of (ss (fst (app_run a [Rerun env, Click (\<lambda>_. ApiResponse ((t # ps) # cs)) env]))) = Succeeded \<and>
         UiMarkdown t \<in> set (last (snd (app_run a [Rerun env, Click (\<lambda>_. ApiResponse ((t # ps) # cs)) env])))"
proof -
  let ?model = "\<lambda>_::string. ApiResponse ((t # ps) # cs)"
  let ?a1 = "fst (app_step a (Rerun env))"
  let ?inputs = "manual_inputs (PyStr u) (answers env)"
  let ?s1 = "(ss ?a1)(''submit_clicked'' \<mapsto> PyBool True, ''career_response'' \<mapsto> PyStr t)"
  let ?s3 = "fst (script_run env ?s1)"
  have b: "button ?a1 = Some (?inputs, PyStr u)"
    using assms(1) by (simp add: app_step_Rerun script_run_button)
  obtain r where r: "ss ?a1 ''resume_text'' = Some r"
    using script_run_resume_present [of env "ss a"] by (auto simp: app_step_Rerun)
  obtain p where p: "build_prompt ?inputs r (PyStr u) = Inr p"
    by (simp add: build_prompt_PyStr)
  have g: "generate_results ?inputs (PyStr u) ?model (ss ?a1) = (?s1, [], None)"
    using generate_results_prompt [of "ss ?a1" r ?inputs "PyStr u" p ?model, OF r p]
    by (simp add: handle_reply_def)
  have step2: "app_step ?a1 (Click ?model env) =
      (\<lparr>ss = ?s3, button = Some (snd (snd (script_run env ?s1)))\<rparr>, fst (snd (script_run env ?s1)))"
    using app_step_Click [OF b g] by simp
  have f: "?s3 ''submit_clicked'' = Some (PyBool True)" and c: "?s3 ''career_response'' = Some (PyStr t)"
    by (simp_all add: script_run_other)
  then have "display_report ?s3 =
      Inr [UiMarkdown (''## '' @ compass @ '' Your Personalized Career Report''), UiMarkdown t]"
    using assms(2) by (rule display_report_shows)
  from script_run_shows_report [OF this]
  have "UiMarkdown t \<in> set (fst (snd (script_run env ?s1)))"
    by (meson list.set_intros(1) list.set_intros(2) subsetD)
  moreover from f c assms(2) have "phase_of ?s3 = Succeeded" by (simp add: phase_of_def)
  ultimately show ?thesis unfolding app_run_two step2 by simp
qed

theorem submit_reaches_report_witness:
  "radio \<lparr>radio = PyStr ''Current Job Seeker'', uploaded = None, answers = (\<lambda>_. None)\<rparr> = PyStr ''Current Job Seeker'' \<and>
   ''Become a data analyst'' \<noteq> [] \<and>
   phase_of (ss (fst (app_run app_init
     [Rerun \<lparr>radio = PyStr ''Current Job Seeker'', uploaded = None, answers = (\<lambda>_. None)\<rparr>,
      Click (\<lambda>_. ApiResponse [[''Become a data analyst'']]) \<lparr>radio = PyStr ''Current Job Seeker'', uploaded = None, answers = (\<lambda>_. None)\<rparr>]))) = Succeeded \<and>
   UiMarkdown ''Become a data analyst'' \<in> set (last (snd (app_run app_init
     [Rerun \<lparr>radio = PyStr ''Current Job Seeker'', uploaded = None, answers = (\<lambda>_. None)\<rparr>,
      Click (\<lambda>_. ApiResponse [[''Become a data analyst'']]) \<lparr>radio = PyStr ''Current Job Seeker'', uploaded = None, answers = (\<lambda>_. None)\<rparr>])))"
proof -
  let ?env = "\<lparr>radio = PyStr ''Current Job Seeker'', uploaded = None, answers = (\<lambda>_. None)\<rparr>"
  have h1: "radio ?env = PyStr ''Current Job Seeker''" by simp
  have h2: "''Become a data analyst'' \<noteq> []" by simp
  show ?thesis
    by (rule conjI [OF h1 conjI [OF h2 submit_reaches_report [OF h1 h2, of app_init "[]" "[]"]]])
qed

end
