(* ===== verification/Spec2Isabelle.thy ===== *)
theory Spec2Isabelle
  imports App
begin

text \<open>
  \<^bold>\<open>Career Path AI: a verification development of \<open>src/Career_Path_AI.py\<close>.\<close>

  \<^medskip>
  \<^emph>\<open>The program.\<close> A single Streamlit script. Streamlit re-executes it from the top on
  every interaction; state survives between runs only in \<open>st.session_state\<close>. One run:
  initialise four session keys (lines 10--13); draw a radio button choosing the user
  type, stored under the key \<open>user_type\<close> (line 19); if a PDF is uploaded, extract its
  text with pdfplumber into \<open>resume_text\<close> (lines 21--37); draw the question form of the
  chosen type, collecting the answers in the dictionary \<open>inputs\<close> (lines 45--75); draw
  the button whose callback \<open>generate_results\<close> (lines 100--112) sets
  \<open>submit_clicked\<close>, builds the prompt with \<open>build_prompt\<close> (lines 78--98), calls the
  Gemini model and stores the first part of the first candidate in
  \<open>career_response\<close>; finally show the report section (lines 117--123).

  \<^medskip>
  \<^emph>\<open>Theories and what they model.\<close>
  \<^item> \<open>Prelude\<close>: Python values (\<open>pyval\<close>), exceptions (\<open>py_error\<close>), what a run
    shows (\<open>ui_out\<close>), \<open>str.join\<close> (\<open>py_join\<close>), \<open>str.upper\<close> on ASCII
    (\<open>py_upper\<close>), dictionary assignment on an insertion-ordered \<open>dict\<close>
    (\<open>dict_set\<close>), and the shared list lemmas.
  \<^item> \<open>Prompt\<close>: \<open>build_prompt\<close>, byte for byte, with the answer lines
    (\<open>manual_line\<close>, \<open>manual_lines\<close>) and the resume-or-placeholder rule
    (\<open>resume_shown\<close>); \<open>AttributeError\<close> when the user type is not a string.
  \<^item> \<open>Session\<close>: the store \<open>string \<rightharpoonup> pyval\<close>, \<open>session_init\<close> (lines 11--13),
    attribute reads \<open>ss_get\<close>, and the well-typedness predicate \<open>session_wf\<close>.
  \<^item> \<open>Resume\<close>: the page loop \<open>extract_pages\<close>, \<open>extract_pdf\<close> and the whole upload
    branch \<open>upload_resume\<close>; a document is given by what pdfplumber returns or raises.
  \<^item> \<open>Form\<close>: the radio options, the two question tables \<open>job_seeker_fields\<close> and
    \<open>student_fields\<close>, the branch \<open>form_fields\<close>, and \<open>collect_inputs\<close> for the
    assignments \<open>inputs[label] = ...\<close>; \<open>widget_value\<close> states Streamlit's widget
    contract (text fields default to the empty string, a select box to its first option).
  \<^item> \<open>Generate\<close>: \<open>handle_reply\<close> (the \<open>try\<close> body after the call) and
    \<open>generate_results\<close>; the model is a function from the prompt to a reply
    (\<open>api_reply\<close>: raises, or candidates with their parts).
  \<^item> \<open>App\<close>: \<open>display_report\<close>, one script execution \<open>script_run\<close>, the application
    state \<open>app\<close> (store and the callback of the button drawn last), the interactions
    \<open>event\<close> (rerun, or click = callback then rerun), \<open>app_step\<close>, \<open>app_run\<close> and the
    reachable states \<open>reachable\<close> from \<open>app_init\<close>.
  \<^item> This theory: the header and the properties that span components.

  \<^medskip>
  \<^emph>\<open>What is proved.\<close> For the prompt (\<open>Prompt\<close>): every non-empty answer
  appears as its own newline-terminated line, in dictionary order; empty answers
  contribute nothing; the resume section holds the resume verbatim or the placeholder,
  never nothing; the number of newlines is exact; the builder fails exactly when the
  user type is not a string. For the session (\<open>Session\<close>): initialisation leaves a
  well-typed store, keeps every value present, and changes a store exactly when one of
  the four keys is missing. For the upload (\<open>Resume\<close>): the extracted text is the
  non-empty page texts each followed by a newline, and any exception resets the resume
  to the empty string. For the form (\<open>Form\<close>): the answers dictionary has the labels
  of the chosen form, in the code's order. For the callback (\<open>Generate\<close>): each
  outcome of the model call on each branch, errors included. For the application
  (\<open>App\<close>, by rule induction over \<open>reachable\<close>): every reachable store is well
  typed, the submission flag never reverts, the only exception a run can show is the
  one raised by \<open>build_prompt\<close> when no user type is selected, and the arguments bound
  to the button agree with the session (same user type, answers of that type's form).
  From any state, a rerun with a user type followed by a click whose reply carries
  text reaches Succeeded and shows the text, whatever the answers (the mandatory
  questions are not checked). Against the specification's submission state machine
  (Idle, Succeeded, Failed) the code refines it from every reachable state that is not
  Succeeded; from a Succeeded state, a resubmission whose reply carries no text keeps
  the phase Succeeded and shows the old report, where the specification moves to
  Failed. Across components (this theory): a successful upload puts the extracted text
  into the next prompt, a failed one the placeholder, a removed one keeps the old text,
  and every job seeker's prompt carries a relocation line.

  \<^medskip>
  \<^emph>\<open>Not modelled.\<close> Page layout (title, headings, spacers, spinner), the
  configuration of the model and of the page (lines 5--8), the internals of Streamlit,
  pdfplumber and the Gemini client (their observable results are parameters of the
  model), and Unicode case mapping beyond ASCII (\<open>py_upper\<close> maps ASCII letters
  only; the two user types the radio offers are ASCII). No loop of the program can diverge:
  the only loops run over the four session keys and over the pages of a document, both
  structural recursions, so no fuel is needed.
\<close>

section \<open>Properties across components\<close>

lemma app_step_Rerun_resume:
  "ss (fst (app_step a (Rerun env))) ''resume_text'' =
     fst (upload_resume (uploaded env) ((session_init (ss a))(''user_type'' \<mapsto> radio env))) ''resume_text''"
  by (simp add: app_step_Rerun script_run_eq)

lemma resume_section_of_prompt:
  "callback_prompt inputs (PyStr u) s = Inr p \<Longrightarrow> s ''resume_text'' = Some r \<Longrightarrow>
   sublist (''Resume Content:'' @ nl @ ''    '' @ resume_shown r @ nl @ nl @ ''    Manual Inputs:'') p"
proof -
  assume "callback_prompt inputs (PyStr u) s = Inr p" and "s ''resume_text'' = Some r"
  then have "build_prompt inputs r (PyStr u) = Inr p" by (simp add: callback_prompt_stored)
  then show ?thesis by (rule build_prompt_resume_section)
qed

text \<open>C16: In every reachable state in the Succeeded phase, a resubmission whose reply
  carries no text part (the call raises, no candidate, or a candidate without parts)
  keeps the old report in the session and the next page shows it: the code stays in the
  Succeeded phase where the specification's machine moves to Failed.\<close>

theorem stale_report_after_failed_resubmission:
  assumes "reachable a" and "button a = Some (inputs, PyStr u)"
    and "ss a ''career_response'' = Some (PyStr r)" and "phase_of (ss a) = Succeeded"
    and "\<And>p. \<not> (\<exists>t ps cs. model p = ApiResponse ((t # ps) # cs))"
  shows "phase_of (ss (fst (app_step a (Click model env)))) = Succeeded \<and>
         (\<forall>p. spec_submit (reply_succeeds (model p)) = Failed) \<and>
         UiMarkdown r \<in> set (snd (app_step a (Click model env)))"
proof -
  let ?s1 = "(ss a)(''submit_clicked'' \<mapsto> PyBool True)"
  let ?s3 = "fst (script_run env ?s1)"
  from reachable_app_inv [OF assms(1)] assms(2) have wf: "session_wf (ss a)"
    by (simp add: app_inv_def)
  then obtain r0 where r0: "ss a ''resume_text'' = Some r0"
    by (auto simp: session_wf_def elim: str_slot.elims)
  obtain p where p: "build_prompt inputs r0 (PyStr u) = Inr p"
    by (simp add: build_prompt_PyStr)
  have g: "generate_results inputs (PyStr u) model (ss a) = (?s1, snd (handle_reply (model p) ?s1), None)"
    using generate_results_prompt [of "ss a" r0 inputs "PyStr u" p model, OF r0 p]
      handle_reply_no_text [OF assms(5) [of p]]
    by (simp add: case_prod_unfold)
  have step: "app_step a (Click model env) =
      (\<lparr>ss = ?s3, button = Some (snd (snd (script_run env ?s1)))\<rparr>,
       snd (handle_reply (model p) ?s1) @ fst (snd (script_run env ?s1)))"
    using app_step_Click [OF assms(2) g] by simp
  from assms(4) assms(3) have "r \<noteq> []" by (simp add: phase_of_def split: if_splits)
  have f: "?s3 ''submit_clicked'' = Some (PyBool True)" and c: "?s3 ''career_response'' = Some (PyStr r)"
    using assms(3) by (simp_all add: script_run_other)
  from script_run_shows_report [OF display_report_shows [OF f c \<open>r \<noteq> []\<close>]]
  have "UiMarkdown r \<in> set (fst (snd (script_run env ?s1)))"
    by (meson list.set_intros(1) list.set_intros(2) subsetD)
  moreover from f c \<open>r \<noteq> []\<close> have "phase_of ?s3 = Succeeded" by (simp add: phase_of_def)
  moreover have "\<forall>p. spec_submit (reply_succeeds (model p)) = Failed"
  proof
    fix p'
    from assms(5) [of p'] show "spec_submit (reply_succeeds (model p')) = Failed"
      by (cases "model p'" rule: reply_succeeds.cases) (auto simp: spec_submit_def)
  qed
  ultimately show ?thesis by (simp add: step)
qed

theorem stale_report_after_failed_resubmission_witness:
  "reachable (fst (app_step (fst (app_step app_init (Rerun \<lparr>radio = PyStr ''Current Job Seeker'', uploaded = None, answers = (\<lambda>_. None)\<rparr>))) (Click (\<lambda>_. ApiResponse [[''Report A'']]) \<lparr>radio = PyStr ''Current Job Seeker'', uploaded = None, answers = (\<lambda>_. None)\<rparr>))) \<and>
   button (fst (app_step (fst (app_step app_init (Rerun \<lparr>radio = PyStr ''Current Job Seeker'', uploaded = None, answers = (\<lambda>_. None)\<rparr>))) (Click (\<lambda>_. ApiResponse [[''Report A'']]) \<lparr>radio = PyStr ''Current Job Seeker'', uploaded = None, answers = (\<lambda>_. None)\<rparr>))) = Some (manual_inputs (PyStr ''Current Job Seeker'') (\<lambda>_. None), PyStr ''Current Job Seeker'') \<and>
   ss (fst (app_step (fst (app_step app_init (Rerun \<lparr>radio = PyStr ''Current Job Seeker'', uploaded = None, answers = (\<lambda>_. None)\<rparr>))) (Click (\<lambda>_. ApiResponse [[''Report A'']]) \<lparr>radio = PyStr ''Current Job Seeker'', uploaded = None, answers = (\<lambda>_. None)\<rparr>))) ''career_response'' = Some (PyStr ''Report A'') \<and>
   phase_of (ss (fst (app_step (fst (app_step app_init (Rerun \<lparr>radio = PyStr ''Current Job Seeker'', uploaded = None, answers = (\<lambda>_. None)\<rparr>))) (Click (\<lambda>_. ApiResponse [[''Report A'']]) \<lparr>radio = PyStr ''Current Job Seeker'', uploaded = None, answers = (\<lambda>_. None)\<rparr>)))) = Succeeded \<and>
   phase_of (ss (fst (app_step (fst (app_step (fst (app_step app_init (Rerun \<lparr>radio = PyStr ''Current Job Seeker'', uploaded = None, answers = (\<lambda>_. None)\<rparr>))) (Click (\<lambda>_. ApiResponse [[''Report A'']]) \<lparr>radio = PyStr ''Current Job Seeker'', uploaded = None, answers = (\<lambda>_. None)\<rparr>))) (Click (\<lambda>_. ApiRaises ''quota exceeded'') \<lparr>radio = PyStr ''Current Job Seeker'', uploaded = None, answers = (\<lambda>_. None)\<rparr>)))) = Succeeded \<and>
   UiMarkdown ''Report A'' \<in> set (snd (app_step (fst (app_step (fst (app_step app_init (Rerun \<lparr>radio = PyStr ''Current Job Seeker'', uploaded = None, answers = (\<lambda>_. None)\<rparr>))) (Click (\<lambda>_. ApiResponse [[''Report A'']]) \<lparr>radio = PyStr ''Current Job Seeker'', uploaded = None, answers = (\<lambda>_. None)\<rparr>))) (Click (\<lambda>_. ApiRaises ''quota exceeded'') \<lparr>radio = PyStr ''Current Job Seeker'', uploaded = None, answers = (\<lambda>_. None)\<rparr>)))"
proof -
  let ?env = "\<lparr>radio = PyStr ''Current Job Seeker'', uploaded = None, answers = (\<lambda>_. None)\<rparr>"
  let ?a1 = "fst (app_step app_init (Rerun ?env))"
  let ?a2 = "fst (app_step ?a1 (Click (\<lambda>_. ApiResponse [[''Report A'']]) ?env))"
  have ok: "event_ok (Rerun ?env)" "event_ok (Click (\<lambda>_. ApiResponse [[''Report A'']]) ?env)"
    by (simp_all add: event_ok_def user_type_options_def)
  have r: "reachable ?a2"
    by (rule reachable.step [OF reachable.step [OF reachable.init ok(1)] ok(2)])
  have b1: "button ?a1 = Some (manual_inputs (PyStr ''Current Job Seeker'') (\<lambda>_. None), PyStr ''Current Job Seeker'')"
    by (simp add: app_step_Rerun script_run_button)
  have st: "ss ?a2 = fst (script_run ?env ((ss ?a1)(''submit_clicked'' \<mapsto> PyBool True, ''career_response'' \<mapsto> PyStr ''Report A'')))"
    and b: "button ?a2 = Some (manual_inputs (PyStr ''Current Job Seeker'') (\<lambda>_. None), PyStr ''Current Job Seeker'')"
  proof -
    obtain r0 where r0: "ss ?a1 ''resume_text'' = Some r0"
      using script_run_resume_present [of ?env "ss app_init"] by (auto simp: app_step_Rerun)
    obtain p where p: "build_prompt (manual_inputs (PyStr ''Current Job Seeker'') (\<lambda>_. None)) r0 (PyStr ''Current Job Seeker'') = Inr p"
      by (simp add: build_prompt_PyStr)
    have g: "generate_results (manual_inputs (PyStr ''Current Job Seeker'') (\<lambda>_. None)) (PyStr ''Current Job Seeker'')
        (\<lambda>_. ApiResponse [[''Report A'']]) (ss ?a1) =
        ((ss ?a1)(''submit_clicked'' \<mapsto> PyBool True, ''career_response'' \<mapsto> PyStr ''Report A''), [], None)"
      using generate_results_prompt [of "ss ?a1" r0 "manual_inputs (PyStr ''Current Job Seeker'') (\<lambda>_. None)"
          "PyStr ''Current Job Seeker''" p "\<lambda>_. ApiResponse [[''Report A'']]", OF r0 p]
      by (simp add: handle_reply_def)
    show "ss ?a2 = fst (script_run ?env ((ss ?a1)(''submit_clicked'' \<mapsto> PyBool True, ''career_response'' \<mapsto> PyStr ''Report A'')))"
      "button ?a2 = Some (manual_inputs (PyStr ''Current Job Seeker'') (\<lambda>_. None), PyStr ''Current Job Seeker'')"
      using app_step_Click [OF b1 g] by (simp_all add: script_run_button)
  qed
  have c: "ss ?a2 ''career_response'' = Some (PyStr ''Report A'')"
    and f: "ss ?a2 ''submit_clicked'' = Some (PyBool True)"
    by (simp_all add: st script_run_other)
  then have ph: "phase_of (ss ?a2) = Succeeded" by (simp add: phase_of_def)
  have m: "\<And>p. \<not> (\<exists>t ps cs. (\<lambda>_::string. ApiRaises ''quota exceeded'') p = ApiResponse ((t # ps) # cs))"
    by simp
  show ?thesis
    using stale_report_after_failed_resubmission [OF r b c ph m, of ?env] r b c ph by simp
qed

text \<open>C21: After an upload whose text extraction fails, the resume text the next
  click reads is the empty string, so the prompt it sends carries the placeholder and
  none of the text stored before.\<close>

theorem failed_upload_prompt_placeholder:
  assumes "uploaded env = Some doc" and "extract_pdf doc = Inl e"
    and "callback_prompt inputs (PyStr u) (ss (fst (app_step a (Rerun env)))) = Inr p"
  shows "sublist (''Resume Content:'' @ nl @ ''    '' @ no_resume @ nl @ nl @ ''    Manual Inputs:'') p"
proof -
  from assms(1,2) have "ss (fst (app_step a (Rerun env))) ''resume_text'' = Some (PyStr [])"
    by (simp add: app_step_Rerun_resume upload_resume_error_store)
  from resume_section_of_prompt [OF assms(3) this]
  have "sublist (''Resume Content:'' @ nl @ ''    '' @ resume_shown (PyStr []) @ nl @ nl @ ''    Manual Inputs:'') p" .
  moreover have "resume_shown (PyStr []) = no_resume" by (simp add: resume_shown_def)
  ultimately show ?thesis by (simp only:)
qed

theorem failed_upload_prompt_placeholder_witness:
  "uploaded \<lparr>radio = PyStr ''High School Student'', uploaded = Some (PdfUnreadable ''EOF marker not found''), answers = (\<lambda>_. None)\<rparr> =
     Some (PdfUnreadable ''EOF marker not found'') \<and>
   extract_pdf (PdfUnreadable ''EOF marker not found'') = Inl (ExternalError ''EOF marker not found'') \<and>
   callback_prompt [] (PyStr ''High School Student'')
     (ss (fst (app_step \<lparr>ss = [''resume_text'' \<mapsto> PyStr ''Old CV''], button = None\<rparr>
        (Rerun \<lparr>radio = PyStr ''High School Student'', uploaded = Some (PdfUnreadable ''EOF marker not found''), answers = (\<lambda>_. None)\<rparr>))))
     = Inr (prompt_before ''High School Student'' (PyStr []) @ prompt_after) \<and>
   sublist (''Resume Content:'' @ nl @ ''    '' @ no_resume @ nl @ nl @ ''    Manual Inputs:'')
     (prompt_before ''High School Student'' (PyStr []) @ prompt_after)"
proof -
  let ?env = "\<lparr>radio = PyStr ''High School Student'', uploaded = Some (PdfUnreadable ''EOF marker not found''), answers = (\<lambda>_. None)\<rparr>"
  let ?a = "\<lparr>ss = [''resume_text'' \<mapsto> PyStr ''Old CV''], button = None\<rparr>"
  have x: "extract_pdf (PdfUnreadable ''EOF marker not found'') = Inl (ExternalError ''EOF marker not found'')"
    by (simp add: extract_pdf_def)
  have cp: "callback_prompt [] (PyStr ''High School Student'') (ss (fst (app_step ?a (Rerun ?env))))
     = Inr (prompt_before ''High School Student'' (PyStr []) @ prompt_after)"
    by (simp add: callback_prompt_stored app_step_Rerun_resume upload_resume_error_store x
        build_prompt_PyStr manual_lines_def)
  show ?thesis using failed_upload_prompt_placeholder [of ?env, OF _ x cp] x cp by simp
qed

text \<open>C22: Removing the uploaded file does not clear the resume: a rerun with no file
  keeps the text extracted before, and the next click still sends it.\<close>

theorem removed_upload_keeps_resume:
  assumes "ss a ''resume_text'' = Some (PyStr t)" and "t \<noteq> []" and "uploaded env = None"
    and "callback_prompt inputs (PyStr u) (ss (fst (app_step a (Rerun env)))) = Inr p"
  shows "sublist (''Resume Content:'' @ nl @ ''    '' @ t @ nl @ nl @ ''    Manual Inputs:'') p"
proof -
  from assms(1,3) have "ss (fst (app_step a (Rerun env))) ''resume_text'' = Some (PyStr t)"
    by (simp add: app_step_Rerun_resume upload_resume_def)
  from resume_section_of_prompt [OF assms(4) this]
  have "sublist (''Resume Content:'' @ nl @ ''    '' @ resume_shown (PyStr t) @ nl @ nl @ ''    Manual Inputs:'') p" .
  moreover from assms(2) have "resume_shown (PyStr t) = t" by (simp add: resume_shown_def)
  ultimately show ?thesis by (simp only:)
qed

theorem removed_upload_keeps_resume_witness:
  "ss \<lparr>ss = [''resume_text'' \<mapsto> PyStr ''Old CV''], button = None\<rparr> ''resume_text'' = Some (PyStr ''Old CV'') \<and>
   ''Old CV'' \<noteq> [] \<and>
   uploaded \<lparr>radio = PyStr ''High School Student'', uploaded = None, answers = (\<lambda>_. None)\<rparr> = None \<and>
   callback_prompt [] (PyStr ''High School Student'')
     (ss (fst (app_step \<lparr>ss = [''resume_text'' \<mapsto> PyStr ''Old CV''], button = None\<rparr>
        (Rerun \<lparr>radio = PyStr ''High School Student'', uploaded = None, answers = (\<lambda>_. None)\<rparr>))))
     = Inr (prompt_before ''High School Student'' (PyStr ''Old CV'') @ prompt_after) \<and>
   sublist (''Resume Content:'' @ nl @ ''    '' @ ''Old CV'' @ nl @ nl @ ''    Manual Inputs:'')
     (prompt_before ''High School Student'' (PyStr ''Old CV'') @ prompt_after)"
proof -
  let ?env = "\<lparr>radio = PyStr ''High School Student'', uploaded = None, answers = (\<lambda>_. None)\<rparr>"
  let ?a = "\<lparr>ss = [''resume_text'' \<mapsto> PyStr ''Old CV''], button = None\<rparr>"
  have cp: "callback_prompt [] (PyStr ''High School Student'') (ss (fst (app_step ?a (Rerun ?env))))
     = Inr (prompt_before ''High School Student'' (PyStr ''Old CV'') @ prompt_after)"
    by (simp add: callback_prompt_stored app_step_Rerun_resume upload_resume_def
        build_prompt_PyStr manual_lines_def)
  show ?thesis using removed_upload_keeps_resume [of ?a, OF _ _ _ cp] cp by simp
qed

text \<open>C24: The optional question "Would you relocate for work?" is a select box whose
  value is never empty, so every job seeker's prompt contains a relocation bullet, even
  when the user never opened the optional section.\<close>

theorem job_seeker_prompt_has_relocation:
  assumes "build_prompt (manual_inputs (PyStr ''Current Job Seeker'') env) resume_text user_type = Inr p"
  shows "sublist (''- Willing to Relocate: Yes'' @ nl) p \<or> sublist (''- Willing to Relocate: No'' @ nl) p"
proof -
  let ?w = "SelectBox ''Would you relocate for work?'' [''Yes'', ''No'']"
  have mem: "(''Willing to Relocate'', widget_value env ?w) \<in> set (manual_inputs (PyStr ''Current Job Seeker'') env)"
    by (simp add: manual_inputs_eq form_fields_def job_seeker_fields_def)
  have val: "widget_value env ?w = ''Yes'' \<or> widget_value env ?w = ''No''"
    by (auto simp: widget_value_def split: option.splits)
  then have "widget_value env ?w \<noteq> []" by auto
  from bullet_line_in_prompt [OF mem this assms] val show ?thesis
    by (auto simp: manual_line_def)
qed

theorem job_seeker_prompt_has_relocation_witness:
  "build_prompt (manual_inputs (PyStr ''Current Job Seeker'') (\<lambda>_. None)) PyNone (PyStr ''Current Job Seeker'') =
     Inr (prompt_before ''Current Job Seeker'' PyNone @ ''- Willing to Relocate: Yes'' @ prompt_after) \<and>
   (sublist (''- Willing to Relocate: Yes'' @ nl) (prompt_before ''Current Job Seeker'' PyNone @ ''- Willing to Relocate: Yes'' @ prompt_after) \<or>
    sublist (''- Willing to Relocate: No'' @ nl) (prompt_before ''Current Job Seeker'' PyNone @ ''- Willing to Relocate: Yes'' @ prompt_after))"
proof -
  have eq: "build_prompt (manual_inputs (PyStr ''Current Job Seeker'') (\<lambda>_. None)) PyNone (PyStr ''Current Job Seeker'') =
     Inr (prompt_before ''Current Job Seeker'' PyNone @ ''- Willing to Relocate: Yes'' @ prompt_after)"
    by (simp add: build_prompt_PyStr manual_inputs_eq form_fields_def job_seeker_fields_def
        widget_value_def manual_lines_def manual_line_def)
  show ?thesis using job_seeker_prompt_has_relocation [OF eq] eq by simp
qed

text \<open>C28: After an upload from which every page is read, the resume text the next
  click reads is the extracted text, so the prompt it sends carries the non-empty page
  texts, each followed by a newline, as its resume section.\<close>

theorem uploaded_resume_in_prompt:
  assumes "uploaded env = Some (PdfPages pages)" and "\<not> page_raises pages" and "page_texts pages \<noteq> []"
    and "callback_prompt inputs (PyStr u) (ss (fst (app_step a (Rerun env)))) = Inr p"
  shows "sublist (''Resume Content:'' @ nl @ ''    '' @ concat (map (\<lambda>t. t @ nl) (page_texts pages)) @
                  nl @ nl @ ''    Manual Inputs:'') p"
proof -
  let ?t = "concat (map (\<lambda>t. t @ nl) (page_texts pages))"
  from assms(1,2) have "ss (fst (app_step a (Rerun env))) ''resume_text'' = Some (PyStr ?t)"
    by (simp add: app_step_Rerun_resume upload_resume_pages_store)
  from resume_section_of_prompt [OF assms(4) this]
  have "sublist (''Resume Content:'' @ nl @ ''    '' @ resume_shown (PyStr ?t) @ nl @ nl @ ''    Manual Inputs:'') p" .
  moreover from assms(3) have "resume_shown (PyStr ?t) = ?t"
    by (cases "page_texts pages") (simp_all add: resume_shown_def nl_def)
  ultimately show ?thesis by (simp only:)
qed


theorem uploaded_resume_in_prompt_witness:
  "uploaded \<lparr>radio = PyStr ''High School Student'', uploaded = Some (PdfPages [Page (Some ''Jane Doe'')]), answers = (\<lambda>_. None)\<rparr> = Some (PdfPages [Page (Some ''Jane Doe'')]) \<and>
   \<not> page_raises [Page (Some ''Jane Doe'')] \<and> page_texts [Page (Some ''Jane Doe'')] \<noteq> [] \<and>
   callback_prompt [] (PyStr ''High School Student'') (ss (fst (app_step app_init (Rerun \<lparr>radio = PyStr ''High School Student'', uploaded = Some (PdfPages [Page (Some ''Jane Doe'')]), answers = (\<lambda>_. None)\<rparr>)))) =
     Inr (prompt_before ''High School Student'' (PyStr (''Jane Doe'' @ nl)) @ prompt_after) \<and>
   sublist (''Resume Content:'' @ nl @ ''    '' @ ''Jane Doe'' @ nl @ nl @ nl @ ''    Manual Inputs:'')
     (prompt_before ''High School Student'' (PyStr (''Jane Doe'' @ nl)) @ prompt_after)"
proof -
  let ?env = "\<lparr>radio = PyStr ''High School Student'', uploaded = Some (PdfPages [Page (Some ''Jane Doe'')]), answers = (\<lambda>_. None)\<rparr>"
  have h1: "uploaded ?env = Some (PdfPages [Page (Some ''Jane Doe'')])" by simp
  have h2: "\<not> page_raises [Page (Some ''Jane Doe'')]" by (simp add: page_raises_def)
  have h3: "page_texts [Page (Some ''Jane Doe'')] \<noteq> []" by (simp add: page_texts_def)
  have cp: "callback_prompt [] (PyStr ''High School Student'') (ss (fst (app_step app_init (Rerun ?env)))) =
     Inr (prompt_before ''High School Student'' (PyStr (''Jane Doe'' @ nl)) @ prompt_after)"
    by (simp add: callback_prompt_stored app_step_Rerun_resume upload_resume_pages_store h2
        page_texts_def build_prompt_PyStr manual_lines_def)
  show ?thesis
    using uploaded_resume_in_prompt [OF h1 h2 h3 cp] h1 h2 h3 cp by (simp add: page_texts_def)
qed

end
